theory Spec2Isabelle
  imports Complex_Main "HOL-Library.AList" "HOL-Library.Sublist"
begin

section \<open>Python values, exceptions and the built-ins the pipeline uses\<close>

text \<open>
  The program is a single Python script (app.py). Its values are JSON-like: strings, the
  dictionaries of the pipeline state, and whatever the hosting platform's API answers.
  A dictionary is an association list with unique keys in insertion order, as a Python
  dict is. A \<open>string\<close> holds a Python \<open>str\<close> as its UTF-8 bytes, and a Python \<open>bytes\<close>
  value as it is.
\<close>

datatype pyval =
    PNone
  | PBool bool
  | PInt int
  | PStr string
  | PList "pyval list"
  | PDict "(string \<times> pyval) list"

type_synonym pydict = "(string \<times> pyval) list"

text \<open>
  Every raise of the script is a value. \<open>External\<close> is any exception that a collaborator
  (the HTTP library, the text-generation client, the content-type detector) raises;
  it carries the exception's message. The type holds the subclasses of \<open>Exception\<close>,
  which is what \<open>except Exception\<close> catches: a failure of a call is one of them.
  \<open>KeyboardInterrupt\<close> and \<open>SystemExit\<close>, which end the process from outside a call
  and pass through every handler of the script, are not values of this type, and a run
  they end is not a run of this model.
\<close>

datatype exn =
    IndexError
  | KeyError string
  | TypeError
  | AttributeError
  | UnicodeDecodeError
  | EnvironmentError string
  | InvalidUpdateError
  | GraphRecursionError
  | External string

text \<open>\<open>bind\<close> sequences two steps that may raise: the first exception ends the block.\<close>

definition bind :: "exn + 'a \<Rightarrow> ('a \<Rightarrow> exn + 'b) \<Rightarrow> exn + 'b" where
  "bind m f = (case m of Inl e \<Rightarrow> Inl e | Inr a \<Rightarrow> f a)"

text \<open>\<open>s.rstrip(c)\<close> for a one-character argument: drop every trailing \<open>c\<close>.\<close>

definition rstrip_char :: "char \<Rightarrow> string \<Rightarrow> string" where
  "rstrip_char c s = rev (dropWhile (\<lambda>x. x = c) (rev s))"

text \<open>
  \<open>s.split(c)\<close> for a one-character separator: the pieces between the separators,
  empty pieces kept; the result is never the empty list (\<open>''''.split('/') = ['''']\<close>).
\<close>

fun split_char :: "char \<Rightarrow> string \<Rightarrow> string list" where
  "split_char c [] = [[]]"
| "split_char c (x # xs) =
     (if x = c then [] # split_char c xs
      else (case split_char c xs of
              [] \<Rightarrow> [[x]]
            | p # ps \<Rightarrow> (x # p) # ps))"

text \<open>
  \<open>xs[i]\<close> on a Python list: a negative index counts from the end, and an index out of
  range raises IndexError.
\<close>

definition py_index :: "'a list \<Rightarrow> int \<Rightarrow> exn + 'a" where
  "py_index xs i =
     (if 0 \<le> i \<and> i < int (length xs) then Inr (xs ! nat i)
      else if i < 0 \<and> - int (length xs) \<le> i then Inr (xs ! nat (int (length xs) + i))
      else Inl IndexError)"

section \<open>The Gather stage: decomposing the reference\<close>

text \<open>
  Lines 58 to 61 of \<open>gather_pr_info\<close>:
  \<^verbatim>\<open>
    url_parts = state['pr_url'].rstrip('/').split('/')
    repo_owner = url_parts[-4]
    repo_name = url_parts[-3]
    pr_number = url_parts[-1]
  \<close>
\<close>

definition url_parts_of :: "string \<Rightarrow> string list" where
  "url_parts_of pr_url = split_char CHR ''/'' (rstrip_char CHR ''/'' pr_url)"

definition decompose_reference :: "string \<Rightarrow> exn + (string \<times> string \<times> string)" where
  "decompose_reference pr_url =
     (let url_parts = url_parts_of pr_url in
      bind (py_index url_parts (- 4)) (\<lambda>repo_owner.
      bind (py_index url_parts (- 3)) (\<lambda>repo_name.
      bind (py_index url_parts (- 1)) (\<lambda>pr_number.
      Inr (repo_owner, repo_name, pr_number)))))"

section \<open>Collaborators and effects\<close>

text \<open>
  What the script does not compute itself is a parameter: the process environment, the
  hosting platform behind \<open>requests.get\<close>, the content-type detector (\<open>magic\<close>), the
  UTF-8 decoder of \<open>bytes.decode\<close>, the text-generation client, and Python's
  serialisers (\<open>json.dumps\<close> and the \<open>repr\<close> that an f-string applies to a dictionary).
  The graph library's version decides one more thing: a node's update none of whose keys
  is a key of the state schema is either dropped silently or refused with
  InvalidUpdateError; \<open>refuses_foreign_update\<close> says which.
\<close>

record http_response =
  json_body :: "exn + pyval"
  content :: string

record chat_request =
  model :: string
  messages :: "(string \<times> string) list"
  max_tokens :: nat
  temperature :: rat

record chat_choice =
  message_content :: "string option"

record chat_response =
  choices :: "chat_choice list"

record env =
  getenv :: "string \<Rightarrow> string option"
  http_get :: "string \<Rightarrow> (string \<times> string) list \<Rightarrow> exn + http_response"
  mime_from_buffer :: "string \<Rightarrow> string"
  decode_utf8 :: "string \<Rightarrow> string option"
  chat_create :: "chat_request \<Rightarrow> exn + chat_response"
  json_dumps :: "nat option \<Rightarrow> pyval \<Rightarrow> string"
  py_repr :: "pyval \<Rightarrow> string"
  refuses_foreign_update :: bool

text \<open>
  The effects of a run are logs that only grow: the URLs given to \<open>requests.get\<close>, the
  requests given to the text-generation client, the lines printed, the nodes the runner
  has called (each with the state it passed), and the calls of \<open>write_file\<close>.
\<close>

record world =
  requests_log :: "string list"
  chat_log :: "chat_request list"
  stdout :: "string list"
  node_log :: "(string \<times> pydict) list"
  file_writes :: "(string \<times> string) list"

type_synonym 'a eff = "world \<Rightarrow> (exn + 'a) \<times> world"

definition ebind :: "'a eff \<Rightarrow> ('a \<Rightarrow> 'b eff) \<Rightarrow> 'b eff" where
  "ebind m f = (\<lambda>w. case m w of (Inl e, w') \<Rightarrow> (Inl e, w') | (Inr a, w') \<Rightarrow> f a w')"

definition pure :: "exn + 'a \<Rightarrow> 'a eff" where
  "pure r = (\<lambda>w. (r, w))"

subsection \<open>Dictionary and string operations\<close>

text \<open>\<open>d[k]\<close>: KeyError on a missing key, TypeError on a value that is no dictionary.\<close>

definition py_getitem :: "pyval \<Rightarrow> string \<Rightarrow> exn + pyval" where
  "py_getitem d k =
     (case d of
        PDict kvs \<Rightarrow> (case map_of kvs k of Some v \<Rightarrow> Inr v | None \<Rightarrow> Inl (KeyError k))
      | _ \<Rightarrow> Inl TypeError)"

text \<open>\<open>d.get(k, default)\<close>: only a dictionary has the method.\<close>

definition py_get :: "pyval \<Rightarrow> string \<Rightarrow> pyval \<Rightarrow> exn + pyval" where
  "py_get d k dflt =
     (case d of
        PDict kvs \<Rightarrow> Inr (case map_of kvs k of Some v \<Rightarrow> v | None \<Rightarrow> dflt)
      | _ \<Rightarrow> Inl AttributeError)"

text \<open>\<open>v + "..."\<close> with a string on the right: TypeError unless \<open>v\<close> is a string.\<close>

definition py_add_str :: "pyval \<Rightarrow> string \<Rightarrow> exn + string" where
  "py_add_str v s = (case v of PStr a \<Rightarrow> Inr (a @ s) | _ \<Rightarrow> Inl TypeError)"

text \<open>
  The characters of a string: each lead byte with the continuation bytes (80 to BF) that
  follow it.
\<close>

definition is_continuation :: "char \<Rightarrow> bool" where
  "is_continuation c \<longleftrightarrow> (128::nat) \<le> of_char c \<and> of_char c < (192::nat)"

function utf8_chars :: "string \<Rightarrow> string list" where
  "utf8_chars [] = []"
| "utf8_chars (c # s) =
     (c # takeWhile is_continuation s) # utf8_chars (dropWhile is_continuation s)"
  by pat_completeness auto
termination
  by (relation "measure length") (simp_all add: length_dropWhile_le le_imp_less_Suc)

text \<open>
  \<open>for x in v\<close>: a list gives its elements, a dictionary its keys, a string its
  characters; nothing else is iterable.
\<close>

definition py_iter :: "pyval \<Rightarrow> exn + pyval list" where
  "py_iter v =
     (case v of
        PList xs \<Rightarrow> Inr xs
      | PDict kvs \<Rightarrow> Inr (map (\<lambda>kv. PStr (fst kv)) kvs)
      | PStr s \<Rightarrow> Inr (map PStr (utf8_chars s))
      | _ \<Rightarrow> Inl TypeError)"

text \<open>\<open>v.endswith(suffix)\<close>: only a string has the method.\<close>

definition py_endswith :: "pyval \<Rightarrow> string \<Rightarrow> exn + bool" where
  "py_endswith v suf = (case v of PStr s \<Rightarrow> Inr (suffix suf s) | _ \<Rightarrow> Inl AttributeError)"

text \<open>\<open>sub in s\<close> on strings is \<^const>\<open>sublist\<close>: \<open>s\<close> has \<open>sub\<close> as a contiguous piece.\<close>

subsection \<open>requests.get\<close>

text \<open>
  A URL that is not a string has no scheme once \<open>requests\<close> has turned it into text, and
  is refused before anything is sent. Every other call is logged, whatever it answers.
\<close>

definition requests_get :: "env \<Rightarrow> pyval \<Rightarrow> (string \<times> string) list \<Rightarrow> http_response eff" where
  "requests_get E url headers =
     (\<lambda>w. case url of
             PStr u \<Rightarrow> (http_get E u headers, w\<lparr>requests_log := requests_log w @ [u]\<rparr>)
           | _ \<Rightarrow> (Inl (External ''MissingSchema''), w))"

section \<open>The Gather stage\<close>

text \<open>The module-level constant read from the process environment (line 31).\<close>

definition GITHUB_PERSONAL_ACCESS :: "env \<Rightarrow> string" where
  "GITHUB_PERSONAL_ACCESS E =
     (case getenv E ''GITHUB_PERSONAL_ACCESS'' of Some t \<Rightarrow> t | None \<Rightarrow> ''None'')"

definition request_headers :: "env \<Rightarrow> (string \<times> string) list" where
  "request_headers E =
     [(''Accept'', ''application/vnd.github.v3+json''),
      (''Authorization'', ''token '' @ GITHUB_PERSONAL_ACCESS E)]"

definition api_url_of :: "string \<Rightarrow> string \<Rightarrow> string \<Rightarrow> string" where
  "api_url_of repo_owner repo_name pr_number =
     ''https://api.github.com/repos/'' @ repo_owner @ ''/'' @ repo_name
       @ ''/pulls/'' @ pr_number"

text \<open>
  The test of line 99,
  \<^verbatim>\<open>'text' not in content_type and 'json' not in content_type or filename.endswith('.excalidraw')\<close>:
  \<open>and\<close> binds tighter than \<open>or\<close>, and \<open>or\<close> evaluates its right side, which raises
  on a filename that is no string, only when its left side is false.
\<close>

definition skip_file :: "string \<Rightarrow> pyval \<Rightarrow> exn + bool" where
  "skip_file content_type filename =
     (if \<not> sublist ''text'' content_type \<and> \<not> sublist ''json'' content_type then Inr True
      else py_endswith filename ''.excalidraw'')"

text \<open>
  One turn of the loop of lines 86 to 106, from the dictionary of diffs so far to the
  next one. A filename that reaches line 103 is a string: \<open>endswith\<close> has answered.
\<close>

definition gather_file :: "env \<Rightarrow> pydict \<Rightarrow> pyval \<Rightarrow> pydict eff" where
  "gather_file E dfs file =
     ebind (pure (py_getitem file ''filename'')) (\<lambda>filename.
     ebind (pure (py_get file ''patch'' (PStr ''''))) (\<lambda>patch.
     ebind (pure (py_getitem file ''raw_url'')) (\<lambda>raw_url.
     ebind (requests_get E raw_url (request_headers E)) (\<lambda>file_content_response.
       let file_content = content file_content_response;
           content_type = mime_from_buffer E file_content
       in ebind (pure (skip_file content_type filename)) (\<lambda>skip.
            if skip then pure (Inr dfs)
            else pure
              (case decode_utf8 E file_content of
                 None \<Rightarrow> Inl UnicodeDecodeError
               | Some text \<Rightarrow>
                   (case filename of
                      PStr name \<Rightarrow>
                        Inr (AList.update name
                               (PDict [(''patch'', patch), (''content'', PStr text)]) dfs)
                    | _ \<Rightarrow> Inl TypeError)))))))"

fun gather_files :: "env \<Rightarrow> pydict \<Rightarrow> pyval list \<Rightarrow> pydict eff" where
  "gather_files E dfs [] = pure (Inr dfs)"
| "gather_files E dfs (file # rest) =
     ebind (gather_file E dfs file) (\<lambda>diffs'. gather_files E diffs' rest)"

text \<open>
  \<open>gather_pr_info\<close> (lines 56 to 114). The state is the dictionary the runner passes;
  the result is the partial update \<open>{"pr_info": pr_info}\<close>.
\<close>

definition state_pr_url :: "pydict \<Rightarrow> exn + string" where
  "state_pr_url state =
     bind (py_getitem (PDict state) ''pr_url'')
       (\<lambda>v. case v of PStr s \<Rightarrow> Inr s | _ \<Rightarrow> Inl AttributeError)"

text \<open>
  Lines 58 to 82: the reference is decomposed, the change's metadata is fetched, and the
  list of changed files is fetched from the location the metadata names. The result is
  the description and the decoded body of the file listing.
\<close>

definition gather_listing :: "env \<Rightarrow> pydict \<Rightarrow> (pyval \<times> pyval) eff" where
  "gather_listing E state =
     ebind (pure (state_pr_url state)) (\<lambda>pr_url.
     ebind (pure (decompose_reference pr_url)) (\<lambda>(repo_owner, repo_name, pr_number).
     ebind (requests_get E (PStr (api_url_of repo_owner repo_name pr_number))
              (request_headers E)) (\<lambda>response.
     ebind (pure (json_body response)) (\<lambda>pr_data.
     ebind (pure (py_get pr_data ''body'' (PStr ''''))) (\<lambda>pr_description.
     ebind (pure (py_get pr_data ''_links'' (PDict []))) (\<lambda>links.
     ebind (pure (py_get links ''self'' (PDict []))) (\<lambda>self.
     ebind (pure (py_get self ''href'' PNone)) (\<lambda>href.
     ebind (pure (py_add_str href ''/files'')) (\<lambda>files_url.
     ebind (requests_get E (PStr files_url) (request_headers E)) (\<lambda>files_response.
     ebind (pure (json_body files_response)) (\<lambda>files_data.
       pure (Inr (pr_description, files_data)))))))))))))"

definition gather_pr_info :: "env \<Rightarrow> pydict \<Rightarrow> pydict eff" where
  "gather_pr_info E state =
     ebind (gather_listing E state) (\<lambda>(pr_description, files_data).
     ebind (pure (py_iter files_data)) (\<lambda>files.
     ebind (gather_files E [] files) (\<lambda>dfs.
       pure (Inr [(''pr_info'',
                   PDict [(''description'', pr_description),
                          (''diffs'', PDict dfs)])]))))"

section \<open>The analysis stages\<close>

text \<open>
  \<open>s.strip()\<close> removes, at both ends, every character for which Python's \<open>str.isspace\<close>
  holds. In UTF-8 these are the one-byte characters tab to carriage return, 1C to 1F and
  space; the two-byte U+0085 and U+00A0; and the three-byte U+1680, U+2000 to U+200A,
  U+2028, U+2029, U+202F, U+205F and U+3000. A lead byte decides where a character
  starts, so the last bytes of a letter are never taken for white space.
\<close>

definition space1 :: "char list" where
  "space1 = [CHR 0x09, CHR 0x0A, CHR 0x0B, CHR 0x0C, CHR 0x0D,
             CHR 0x1C, CHR 0x1D, CHR 0x1E, CHR 0x1F, CHR 0x20]"

definition space2 :: "(char \<times> char) list" where
  "space2 = [(CHR 0xC2, CHR 0x85), (CHR 0xC2, CHR 0xA0)]"

definition space3 :: "(char \<times> char \<times> char) list" where
  "space3 =
     [(CHR 0xE1, CHR 0x9A, CHR 0x80),
      (CHR 0xE2, CHR 0x80, CHR 0x80), (CHR 0xE2, CHR 0x80, CHR 0x81),
      (CHR 0xE2, CHR 0x80, CHR 0x82), (CHR 0xE2, CHR 0x80, CHR 0x83),
      (CHR 0xE2, CHR 0x80, CHR 0x84), (CHR 0xE2, CHR 0x80, CHR 0x85),
      (CHR 0xE2, CHR 0x80, CHR 0x86), (CHR 0xE2, CHR 0x80, CHR 0x87),
      (CHR 0xE2, CHR 0x80, CHR 0x88), (CHR 0xE2, CHR 0x80, CHR 0x89),
      (CHR 0xE2, CHR 0x80, CHR 0x8A), (CHR 0xE2, CHR 0x80, CHR 0xA8),
      (CHR 0xE2, CHR 0x80, CHR 0xA9), (CHR 0xE2, CHR 0x80, CHR 0xAF),
      (CHR 0xE2, CHR 0x81, CHR 0x9F), (CHR 0xE3, CHR 0x80, CHR 0x80)]"

fun lstrip :: "string \<Rightarrow> string" where
  "lstrip (a # b # c # s) =
     (if a \<in> set space1 then lstrip (b # c # s)
      else if (a, b) \<in> set space2 then lstrip (c # s)
      else if (a, b, c) \<in> set space3 then lstrip s
      else a # b # c # s)"
| "lstrip [a, b] =
     (if a \<in> set space1 then lstrip [b]
      else if (a, b) \<in> set space2 then []
      else [a, b])"
| "lstrip [a] = (if a \<in> set space1 then [] else [a])"
| "lstrip [] = []"

text \<open>The same from the other end, on the reversed string.\<close>

fun rstrip_rev :: "string \<Rightarrow> string" where
  "rstrip_rev (a # b # c # s) =
     (if a \<in> set space1 then rstrip_rev (b # c # s)
      else if (b, a) \<in> set space2 then rstrip_rev (c # s)
      else if (c, b, a) \<in> set space3 then rstrip_rev s
      else a # b # c # s)"
| "rstrip_rev [a, b] =
     (if a \<in> set space1 then rstrip_rev [b]
      else if (b, a) \<in> set space2 then []
      else [a, b])"
| "rstrip_rev [a] = (if a \<in> set space1 then [] else [a])"
| "rstrip_rev [] = []"

definition strip :: "string \<Rightarrow> string" where
  "strip s = rev (rstrip_rev (rev (lstrip s)))"

text \<open>
  What an f-string puts in place of \<open>{v}\<close>: a string as it is, anything else through
  \<open>repr\<close>.
\<close>

definition py_format :: "env \<Rightarrow> pyval \<Rightarrow> string" where
  "py_format E v = (case v of PStr s \<Rightarrow> s | _ \<Rightarrow> py_repr E v)"

text \<open>
  \<open>str(e)\<close> of an exception, as line 139 prints it. Inside the \<open>try\<close> block only a
  collaborator's exception, the IndexError of an empty list of choices and the
  AttributeError of a content that is \<open>None\<close> can arise; the other messages are never
  printed.
\<close>

fun exn_message :: "exn \<Rightarrow> string" where
  "exn_message IndexError = ''list index out of range''"
| "exn_message (KeyError k) = [CHR 0x27] @ k @ [CHR 0x27]"
| "exn_message TypeError = ''unsupported operand''"
| "exn_message AttributeError =
     [CHR 0x27] @ ''NoneType'' @ [CHR 0x27] @ '' object has no attribute ''
     @ [CHR 0x27] @ ''strip'' @ [CHR 0x27]"
| "exn_message UnicodeDecodeError = ''invalid start byte''"
| "exn_message (EnvironmentError m) = m"
| "exn_message InvalidUpdateError = ''Expected node to update at least one key''"
| "exn_message GraphRecursionError = ''Recursion limit reached''"
| "exn_message (External m) = m"

definition placeholder :: string where
  "placeholder = ''Error generating context.''"

text \<open>
  The \<open>try\<close> block that each analysis stage repeats (lines 124 to 140): the call of the
  client, then \<open>response.choices[0].message.content.strip()\<close>. The list of choices may
  be empty and the content may be \<open>None\<close>; both raise inside the block.
\<close>

definition attempt_reply :: "env \<Rightarrow> chat_request \<Rightarrow> exn + string" where
  "attempt_reply E request =
     bind (chat_create E request) (\<lambda>response.
     bind (py_index (choices response) 0) (\<lambda>choice.
       case message_content choice of
         None \<Rightarrow> Inl AttributeError
       | Some body \<Rightarrow> Inr (strip body)))"

text \<open>The \<open>except Exception\<close> clause: print the error, take the placeholder.\<close>

definition reply_of :: "env \<Rightarrow> chat_request \<Rightarrow> string" where
  "reply_of E request =
     (case attempt_reply E request of Inr reply \<Rightarrow> reply | Inl e \<Rightarrow> placeholder)"

definition generate_reply :: "env \<Rightarrow> chat_request \<Rightarrow> world \<Rightarrow> string \<times> world" where
  "generate_reply E request w =
     (let w1 = w\<lparr>chat_log := chat_log w @ [request]\<rparr>
      in case attempt_reply E request of
           Inr reply \<Rightarrow> (reply, w1)
         | Inl e \<Rightarrow>
             (placeholder, w1\<lparr>stdout := stdout w1 @ [''An error occurred: '' @ exn_message e]\<rparr>))"

text \<open>What \<open>print(label, reply)\<close> writes.\<close>

definition print_reply :: "string \<Rightarrow> string \<Rightarrow> world \<Rightarrow> world" where
  "print_reply label reply w = w\<lparr>stdout := stdout w @ [label @ '' '' @ reply]\<rparr>"

subsection \<open>The prompts\<close>

text \<open>
  The templates of lines 120, 148, 175 and 201, character by character. The typographic
  apostrophe of the last template stands as its three UTF-8 bytes.
\<close>

definition contextualize_prompt :: "env \<Rightarrow> pyval \<Rightarrow> string" where
  "contextualize_prompt E pr_info =
         ''Below is the information extracted from the PR:\<newline>''
       @ ''\<newline>''
       @ ''```json\<newline>''
       @ json_dumps E (Some 2) pr_info
       @ ''\<newline>''
       @ ''```\<newline>''
       @ ''\<newline>''
       @ ''Based on the data provided, please analyze the following:\<newline>''
       @ ''1. What could be the possible motivation behind this PR?\<newline>''
       @ ''2. What specific problem or issue might this PR be trying to solve?\<newline>''
       @ ''3. How do the changes in the PR relate to the overall codebase? Consider ''
       @ ''potential impacts on functionality, performance, security, and maintainability.\<newline>''
       @ ''4. Speculate on the intent of the author. Why might they have made these ''
       @ ''specific changes? What are the potential benefits or risks?\<newline>''
       @ ''5. List any questions or concerns that arise from this PR, which might require ''
       @ ''further clarification from the author or additional review.\<newline>''
       @ ''\<newline>''
       @ ''Please provide a detailed and thoughtful analysis, using all the available ''
       @ ''information and your expert knowledge.''"

definition extract_features_prompt :: "env \<Rightarrow> pyval \<Rightarrow> pyval \<Rightarrow> string" where
  "extract_features_prompt E pr_info context =
         ''Based on the following pull request information and contextual analysis, ''
       @ ''identify the new features or technical changes introduced by this PR: \<newline>''
       @ ''\<newline>''
       @ ''PR Information:\<newline>''
       @ ''```json\<newline>''
       @ json_dumps E (Some 2) pr_info
       @ ''\<newline>''
       @ ''```\<newline>''
       @ ''\<newline>''
       @ ''Contextual Analysis:\<newline>''
       @ ''```txt\<newline>''
       @ py_format E context
       @ ''\<newline>''
       @ ''```\<newline>''
       @ ''\<newline>''
       @ ''Please provide a detailed breakdown of the new features, technical changes, ''
       @ ''and any relevant implications.''"

definition create_expert_checklist_prompt :: "env \<Rightarrow> pyval \<Rightarrow> pyval \<Rightarrow> pyval \<Rightarrow> string" where
  "create_expert_checklist_prompt E pr_info context features =
         ''You are about to perform an expert-level review of a pull request. Below, ''
       @ ''you''
       @ [CHR 0x27]
       @ ''ll find detailed information about the PR, including the extracted context ''
       @ ''and identified features. You will adopt the mindset of three different expert ''
       @ ''personas, each focusing on a critical aspect of code quality.\<newline>''
       @ ''\<newline>''
       @ ''PR Information:\<newline>''
       @ ''```json\<newline>''
       @ py_format E pr_info
       @ ''\<newline>''
       @ ''```\<newline>''
       @ ''\<newline>''
       @ ''Contextual Analysis:\<newline>''
       @ ''```\<newline>''
       @ py_format E context
       @ ''\<newline>''
       @ ''```\<newline>''
       @ ''\<newline>''
       @ ''Identified Features:\<newline>''
       @ ''```\<newline>''
       @ py_format E features
       @ ''\<newline>''
       @ ''```\<newline>''
       @ ''\<newline>''
       @ ''Please provide a detailed review from each of the following perspectives:\<newline>''
       @ ''\<newline>''
       @ ''1. **Code Quality Guru**\<newline>''
       @ ''   - Focus on readability, maintainability, and overall structure. Consider ''
       @ ''best practices, documentation, and ease of understanding. Identify issues ''
       @ ''or areas for improvement in code quality and maintainability.\<newline>''
       @ ''\<newline>''
       @ ''2. **Performance Wizard**\<newline>''
       @ ''   - Focus on performance and efficiency. Consider speed, resource usage, ''
       @ ''scalability, and identify bottlenecks or inefficiencies. Suggest optimizations ''
       @ ''if necessary.\<newline>''
       @ ''\<newline>''
       @ ''3. **Security Sentinel**\<newline>''
       @ ''   - Focus on security and compliance. Consider security vulnerabilities, ''
       @ ''data handling, and industry standards compliance. Highlight security risks ''
       @ ''or concerns and suggest improvements.\<newline>''
       @ ''\<newline>''
       @ ''**Review Structure**:\<newline>''
       @ ''Each persona should provide a detailed, thoughtful review with specific ''
       @ ''points that a human reviewer might want to double-check or consider further. ''
       @ ''Each review should include the persona name and a thorough analysis of the ''
       @ ''PR from their perspective.\<newline>''
       @ ''\<newline>''
       @ ''Code Quality Guru Review:\<newline>''
       @ ''Name: Code Quality Guru\<newline>''
       @ ''Review:\<newline>''
       @ ''[Your analysis here]\<newline>''
       @ ''\<newline>''
       @ ''Performance Wizard Review:\<newline>''
       @ ''Name: Performance Wizard\<newline>''
       @ ''Review:\<newline>''
       @ ''[Your analysis here]\<newline>''
       @ ''\<newline>''
       @ ''Security Sentinel Review:\<newline>''
       @ ''Name: Security Sentinel\<newline>''
       @ ''Review:\<newline>''
       @ ''[Your analysis here]\<newline>''
       @ ''\<newline>''
       @ ''Think deeply about the potential motivations behind the PR, the implications ''
       @ ''of the changes, and any areas that could be optimized or improved.''"

definition final_review_prompt :: "env \<Rightarrow> pydict \<Rightarrow> string" where
  "final_review_prompt E state =
         ''You are tasked with performing an expert-level review of a pull request ''
       @ ''(PR) using information compiled. Below is structured data about the PR, ''
       @ ''including context, key features, and evaluations from a team of different ''
       @ ''AI agents.\<newline>''
       @ ''\<newline>''
       @ ''**PR Data:**\<newline>''
       @ ''```json\<newline>''
       @ py_format E (PDict state)
       @ ''\<newline>''
       @ ''```\<newline>''
       @ ''\<newline>''
       @ ''**Task:**\<newline>''
       @ ''Your goal is to create a focused and highly actionable PR review. The review ''
       @ ''should prioritize specific, targeted feedback that directly addresses key ''
       @ ''pain points in the code, offering immediate suggestions for improvement. ''
       @ ''Each comment should be quoting a specific line or section of the code, aiming ''
       @ ''for clarity and impact.\<newline>''
       @ ''\<newline>''
       @ ''**Guidelines for the Review:**\<newline>''
       @ ''\<newline>''
       @ ''1. **Contextual Summary:**\<newline>''
       @ ''   - Briefly summarize the purpose of the PR, including the assumptions ''
       @ ''made on its context, the problem it seems to address, and the key changes ''
       @ ''introduced.\<newline>''
       @ ''\<newline>''
       @ ''2. **Key Changes Overview:**\<newline>''
       @ ''   - List the primary changes made in the PR, providing a clear, high-level ''
       @ ''but thorough understanding of the modifications.\<newline>''
       @ ''\<newline>''
       @ ''3. **Focused, Actionable Comments:**\<newline>''
       @ ''   - Provide a series of specific, actionable comments that address identified ''
       @ ''issues or areas for improvement in the code.\<newline>''
       @ ''   - Each comment should:\<newline>''
       @ ''     - Reference a specific line or section of the code.\<newline>''
       @ ''     - Clearly explain the issue or potential improvement.\<newline>''
       @ ''     - Offer a concrete suggestion or solution that can be implemented immediately.\<newline>''
       @ ''\<newline>''
       @ ''4. **General Cautions (Optional):**\<newline>''
       @ ''   - If applicable, include a section for general cautions or remarks that ''
       @ ''don''
       @ [CHR 0xE2, CHR 0x80, CHR 0x99]
       @ ''t fit into the specific comments but are important for future consideration. ''
       @ ''These should still be concise and actionable where possible.\<newline>''
       @ ''\<newline>''
       @ ''5. **Approval Recommendation:**\<newline>''
       @ ''   - Conclude with a clear recommendation:\<newline>''
       @ ''     - [ ] Request Changes: Significant issues need to be addressed.\<newline>''
       @ ''     - [ ] Approve with Comments: Minor changes or clarifications are recommended.\<newline>''
       @ ''     - [ ] Approve: The PR is ready for merge.\<newline>''
       @ ''\<newline>''
       @ ''**Formatting Template:**\<newline>''
       @ ''\<newline>''
       @ ''```\<newline>''
       @ ''**PR Review Summary**\<newline>''
       @ ''\<newline>''
       @ ''**Title:** [Concise PR title]\<newline>''
       @ ''\<newline>''
       @ ''**Context:**\<newline>''
       @ ''- [Brief summary of the PR''
       @ [CHR 0xE2, CHR 0x80, CHR 0x99]
       @ ''s purpose and context]\<newline>''
       @ ''\<newline>''
       @ ''**Key Changes:**\<newline>''
       @ ''- [List of key changes made in the PR]\<newline>''
       @ ''\<newline>''
       @ ''**Specific Comments:**\<newline>''
       @ ''[Detailed, actionable comment on a specific issue]\<newline>''
       @ ''```\<newline>''
       @ ''code X\<newline>''
       @ ''```\<newline>''
       @ ''\<newline>''
       @ ''[Detailed, actionable comment on a specific issue]\<newline>''
       @ ''```\<newline>''
       @ ''code Y\<newline>''
       @ ''```\<newline>''
       @ ''\<newline>''
       @ ''...\<newline>''
       @ ''\<newline>''
       @ ''**General Cautions:**\<newline>''
       @ ''- [Optional section for general remarks or cautions]\<newline>''
       @ ''\<newline>''
       @ ''**Approval Recommendation:**\<newline>''
       @ ''- [Choose one: Request Changes / Approve with Comments / Approve]\<newline>''
       @ ''```''"

subsection \<open>The four stages\<close>

definition reviewer_role :: string where
  "reviewer_role = ''You are an expert software engineer reviewing a pull request.''"

definition checklist_role :: string where
  "checklist_role =
     ''You are an expert AI system well versed in software engineer. ''
     @ ''You are currently reviewing a pull request.''"

definition final_role :: string where
  "final_role =
     ''You are an AI entity with the goal of reducing suffering in the universe, ''
     @ ''increasing prosperity in the universe and increasing understanding in the universe.''"

definition chat :: "string \<Rightarrow> string \<Rightarrow> rat \<Rightarrow> chat_request" where
  "chat role prompt t =
     \<lparr>model = ''gpt-4o'', messages = [(''system'', role), (''user'', prompt)],
      max_tokens = 4095, temperature = t\<rparr>"

definition contextualize_request :: "env \<Rightarrow> pyval \<Rightarrow> chat_request" where
  "contextualize_request E pr_info =
     chat reviewer_role (contextualize_prompt E pr_info) (6 / 10)"

definition contextualize_info :: "env \<Rightarrow> pydict \<Rightarrow> pydict eff" where
  "contextualize_info E state =
     ebind (pure (py_getitem (PDict state) ''pr_info'')) (\<lambda>pr_info w.
       case generate_reply E (contextualize_request E pr_info) w of
         (reply, w1) \<Rightarrow> (Inr [(''context'', PStr reply)], print_reply ''context:'' reply w1))"

definition extract_features_request :: "env \<Rightarrow> pyval \<Rightarrow> pyval \<Rightarrow> chat_request" where
  "extract_features_request E pr_info context =
     chat reviewer_role (extract_features_prompt E pr_info context) (6 / 10)"

definition extract_features :: "env \<Rightarrow> pydict \<Rightarrow> pydict eff" where
  "extract_features E state =
     ebind (pure (py_getitem (PDict state) ''pr_info'')) (\<lambda>pr_info.
     ebind (pure (py_getitem (PDict state) ''context'')) (\<lambda>context w.
       case generate_reply E (extract_features_request E pr_info context) w of
         (reply, w1) \<Rightarrow> (Inr [(''features'', PStr reply)], print_reply ''features:'' reply w1)))"

definition create_expert_checklist_request ::
    "env \<Rightarrow> pyval \<Rightarrow> pyval \<Rightarrow> pyval \<Rightarrow> chat_request" where
  "create_expert_checklist_request E pr_info context features =
     chat checklist_role (create_expert_checklist_prompt E pr_info context features) (6 / 10)"

definition create_expert_checklist :: "env \<Rightarrow> pydict \<Rightarrow> pydict eff" where
  "create_expert_checklist E state =
     ebind (pure (py_getitem (PDict state) ''pr_info'')) (\<lambda>pr_info.
     ebind (pure (py_getitem (PDict state) ''context'')) (\<lambda>context.
     ebind (pure (py_getitem (PDict state) ''features'')) (\<lambda>features w.
       case generate_reply E (create_expert_checklist_request E pr_info context features) w of
         (reply, w1) \<Rightarrow>
           (Inr [(''team_review'', PStr reply)], print_reply ''team_review:'' reply w1))))"

definition final_review_request :: "env \<Rightarrow> pydict \<Rightarrow> chat_request" where
  "final_review_request E state = chat final_role (final_review_prompt E state) (7 / 10)"

text \<open>Line 223 returns the reply under the key \<open>final report\<close>, written with a space.\<close>

definition final_review :: "env \<Rightarrow> pydict \<Rightarrow> pydict eff" where
  "final_review E state =
     (\<lambda>w. case generate_reply E (final_review_request E state) w of
             (reply, w1) \<Rightarrow>
               (Inr [(''final report'', PStr reply)], print_reply ''final report:'' reply w1))"

section \<open>The graph and its runner\<close>

text \<open>
  \<open>StateGraph(PRState)\<close> keeps one channel per key of the schema (lines 47 to 53). The
  nodes and edges are those of lines 230 to 242.
\<close>

definition schema_keys :: "string list" where
  "schema_keys =
     [''pr_url'', ''pr_info'', ''context'', ''features'', ''team_review'', ''final_report'']"

definition END :: string where
  "END = ''__end__''"

definition nodes :: "env \<Rightarrow> (string \<times> (pydict \<Rightarrow> pydict eff)) list" where
  "nodes E =
     [(''gather_pr_info'', gather_pr_info E),
      (''contextualize_info'', contextualize_info E),
      (''extract_features'', extract_features E),
      (''create_expert_checklist'', create_expert_checklist E),
      (''final_review'', final_review E)]"

definition entry_point :: string where
  "entry_point = ''gather_pr_info''"

definition edges :: "(string \<times> string) list" where
  "edges =
     [(''gather_pr_info'', ''contextualize_info''),
      (''contextualize_info'', ''extract_features''),
      (''extract_features'', ''create_expert_checklist''),
      (''create_expert_checklist'', ''final_review''),
      (''final_review'', END)]"

text \<open>
  Merging a node's update: only keys of the schema have a channel to write to. A
  library version that refuses foreign updates raises when no key of the update is one.
\<close>

definition apply_update :: "bool \<Rightarrow> pydict \<Rightarrow> pydict \<Rightarrow> exn + pydict" where
  "apply_update refuses state update =
     (if refuses \<and> (\<forall>k \<in> set (map fst update). k \<notin> set schema_keys)
      then Inl InvalidUpdateError
      else Inr (fold (\<lambda>kv s. if fst kv \<in> set schema_keys
                               then AList.update (fst kv) (snd kv) s else s)
                  update state))"

text \<open>
  The runner calls the current node on the current state, notes the call, merges the
  update and follows the node's edge; it stops at \<open>END\<close>. The library gives up after
  \<open>recursion_limit\<close> steps.
\<close>

definition call_node :: "string \<Rightarrow> (pydict \<Rightarrow> pydict eff) \<Rightarrow> pydict \<Rightarrow> pydict eff" where
  "call_node node f state =
     (\<lambda>w. case f state w of
             (r, w') \<Rightarrow> (r, w'\<lparr>node_log := node_log w' @ [(node, state)]\<rparr>))"

fun run_from :: "env \<Rightarrow> nat \<Rightarrow> string \<Rightarrow> pydict \<Rightarrow> pydict eff" where
  "run_from E 0 node state = pure (Inl GraphRecursionError)"
| "run_from E (Suc fuel) node state =
     (if node = END then pure (Inr state)
      else case map_of (nodes E) node of
             None \<Rightarrow> pure (Inl (KeyError node))
           | Some f \<Rightarrow>
               ebind (call_node node f state) (\<lambda>update.
               ebind (pure (apply_update (refuses_foreign_update E) state update)) (\<lambda>state'.
                 case map_of edges node of
                   None \<Rightarrow> pure (Inr state')
                 | Some next_node \<Rightarrow> run_from E fuel next_node state')))"

definition recursion_limit :: nat where
  "recursion_limit = 25"

definition invoke :: "env \<Rightarrow> pydict \<Rightarrow> pydict eff" where
  "invoke E input =
     run_from E recursion_limit entry_point
       (filter (\<lambda>kv. fst kv \<in> set schema_keys) input)"

section \<open>The script\<close>

text \<open>Lines 15 to 28: a variable that is unset or empty is missing.\<close>

definition validate_env_vars :: "env \<Rightarrow> exn + unit" where
  "validate_env_vars E =
     (let required_vars = [''OPENAI_API_KEY'', ''GITHUB_PERSONAL_ACCESS''];
          missing_vars = filter (\<lambda>var. getenv E var = None \<or> getenv E var = Some '''')
                           required_vars
      in if missing_vars \<noteq> []
         then Inl (EnvironmentError (''Missing required environment variables: ''
                     @ concat (map (\<lambda>var. var @ '', '') (butlast missing_vars))
                     @ last missing_vars))
         else Inr ())"

definition initial_state :: "string \<Rightarrow> pydict" where
  "initial_state pr_url =
     [(''pr_url'', PStr pr_url), (''pr_info'', PStr ''''), (''context'', PStr ''''),
      (''features'', PStr ''''), (''team_review'', PStr ''''), (''final_report'', PStr '''')]"

text \<open>
  \<open>write_file\<close> (lines 260 to 262): \<open>open\<close> creates or empties the file, and \<open>write\<close>
  raises TypeError on anything but a string.
\<close>

definition write_file :: "pyval \<Rightarrow> string \<Rightarrow> unit eff" where
  "write_file contents filename =
     (\<lambda>w. case contents of
             PStr s \<Rightarrow> (Inr (), w\<lparr>file_writes := file_writes w @ [(filename, s)]\<rparr>)
           | _ \<Rightarrow> (Inl TypeError, w\<lparr>file_writes := file_writes w @ [(filename, '''')]\<rparr>))"

text \<open>
  Lines 257 to 269 for a given reference: the run of the graph, then the two artifacts.
  An exception of the run ends the script before either artifact.
\<close>

definition run_script :: "env \<Rightarrow> string \<Rightarrow> unit eff" where
  "run_script E pr_url =
     ebind (invoke E (initial_state pr_url)) (\<lambda>result.
     ebind (write_file (PStr (json_dumps E None (PDict result))) ''result.json'') (\<lambda>u.
     ebind (pure (py_getitem (PDict result) ''final_report'')) (\<lambda>report.
       write_file report ''final_report.md'')))"

text \<open>The whole script, with the reference that line 249 fixes.\<close>

definition script :: "env \<Rightarrow> unit eff" where
  "script E =
     ebind (pure (validate_env_vars E)) (\<lambda>u.
       run_script E ''https://github.com/ai-cfia/fertiscan-backend/pull/106'')"

section \<open>A sample environment\<close>

text \<open>
  The scenario of the specification: the reference names change 42 of owner/repo, which
  touches one text file and one image. The platform answers three kinds of URL and nothing
  else; the content-type detector tells the two contents apart.
\<close>

definition sample_listing :: pyval where
  "sample_listing =
     PList [PDict [(''filename'', PStr ''README.md''), (''patch'', PStr ''+hello''),
                   (''raw_url'', PStr ''https://host/raw/README.md'')],
            PDict [(''filename'', PStr ''logo.png''),
                   (''raw_url'', PStr ''https://host/raw/logo.png'')]]"

definition sample_http_get :: "string \<Rightarrow> (string \<times> string) list \<Rightarrow> exn + http_response" where
  "sample_http_get url headers =
     (if url = ''https://api.github.com/repos/owner/repo/pulls/42'' then
        Inr \<lparr>json_body = Inr (PDict [(''body'', PStr ''Adds a greeting''),
                 (''_links'', PDict [(''self'', PDict [(''href'', PStr ''https://host/pulls/42'')])])]),
             content = ''''\<rparr>
      else if url = ''https://host/pulls/42/files'' then
        Inr \<lparr>json_body = Inr sample_listing, content = ''''\<rparr>
      else if url = ''https://host/raw/README.md'' then
        Inr \<lparr>json_body = Inl (External ''JSONDecodeError''), content = ''hello''\<rparr>
      else if url = ''https://host/raw/logo.png'' then
        Inr \<lparr>json_body = Inl (External ''JSONDecodeError''), content = ''PNG''\<rparr>
      else Inl (External ''ConnectionError''))"

definition sample_env :: "(chat_request \<Rightarrow> exn + chat_response) \<Rightarrow> bool \<Rightarrow> env" where
  "sample_env client strict =
     \<lparr>getenv = (\<lambda>name. Some ''secret''),
      http_get = sample_http_get,
      mime_from_buffer = (\<lambda>buffer. if buffer = ''hello'' then ''text/plain'' else ''image/png''),
      decode_utf8 = Some,
      chat_create = client,
      json_dumps = (\<lambda>indent v. ''{}''),
      py_repr = (\<lambda>v. ''{}''),
      refuses_foreign_update = strict\<rparr>"

definition failing_client :: "chat_request \<Rightarrow> exn + chat_response" where
  "failing_client request = Inl (External ''RateLimitError'')"

definition world0 :: world where
  "world0 = \<lparr>requests_log = [], chat_log = [], stdout = [], node_log = [], file_writes = []\<rparr>"

definition sample_state :: pydict where
  "sample_state = [(''pr_url'', PStr ''https://github.com/owner/repo/pull/42'')]"

text \<open>The ChangeInfo of the sample: the image is not in it.\<close>

definition sample_pr_info :: pyval where
  "sample_pr_info =
     PDict [(''description'', PStr ''Adds a greeting''),
            (''diffs'', PDict [(''README.md'',
                 PDict [(''patch'', PStr ''+hello''), (''content'', PStr ''hello'')])])]"

text \<open>A client that always answers the same text, with white space around it.\<close>

definition replying_client :: "chat_request \<Rightarrow> exn + chat_response" where
  "replying_client request =
     Inr \<lparr>choices = [\<lparr>message_content = Some ''  Looks good.\<newline>''\<rparr>]\<rparr>"

text \<open>
  A second environment for the same change: another credential and another content-type
  detector, which calls the text file JSON; client, serialisers and library as before.
\<close>

definition other_env :: env where
  "other_env =
     (sample_env replying_client False)
       \<lparr>getenv := (\<lambda>name. Some ''another secret''),
        mime_from_buffer := (\<lambda>buffer. if buffer = ''hello'' then ''application/json''
                                         else ''application/octet-stream'')\<rparr>"

text \<open>A client that answers the three earlier stages and fails on the final review.\<close>

definition final_failing_client :: "chat_request \<Rightarrow> exn + chat_response" where
  "final_failing_client request =
     (if map_of (messages request) ''system'' = Some final_role
      then Inl (External ''Request timed out.'')
      else replying_client request)"


section \<open>Properties\<close>

lemma py_index_from_end:
  assumes "0 < k" and "k \<le> length xs"
  shows "py_index xs (- int k) = Inr (xs ! (length xs - k))"
proof -
  have "nat (int (length xs) - int k) = length xs - k"
    using assms by linarith
  then show ?thesis
    using assms by (simp add: py_index_def)
qed

lemma py_index_too_short:
  assumes "length xs < k"
  shows "py_index xs (- int k) = Inl IndexError"
  using assms by (simp add: py_index_def)

text \<open>
  C3. Whenever the reference, with its trailing slashes stripped, splits on \<open>/\<close> into at
  least four segments, the decomposition of the Gather stage succeeds and yields the
  fourth-from-last segment as owner, the third-from-last as repository name and the last
  as change number.
\<close>

theorem decompose_reference_segments:
  assumes "4 \<le> length (url_parts_of pr_url)"
  shows "decompose_reference pr_url =
           Inr (url_parts_of pr_url ! (length (url_parts_of pr_url) - 4),
                url_parts_of pr_url ! (length (url_parts_of pr_url) - 3),
                url_parts_of pr_url ! (length (url_parts_of pr_url) - 1))"
proof -
  let ?ps = "url_parts_of pr_url"
  have a: "py_index ?ps (- 4) = Inr (?ps ! (length ?ps - 4))"
    using py_index_from_end [of 4 ?ps] assms by simp
  have b: "py_index ?ps (- 3) = Inr (?ps ! (length ?ps - 3))"
    using py_index_from_end [of 3 ?ps] assms by simp
  have c: "py_index ?ps (- 1) = Inr (?ps ! (length ?ps - 1))"
    using py_index_from_end [of 1 ?ps] assms by simp
  show ?thesis
    by (simp add: decompose_reference_def Let_def bind_def a b c)
qed

theorem decompose_reference_segments_witness:
  "4 \<le> length (url_parts_of ''https://github.com/ai-cfia/fertiscan-backend/pull/106/'')
   \<and> decompose_reference ''https://github.com/ai-cfia/fertiscan-backend/pull/106/''
       = Inr (''ai-cfia'', ''fertiscan-backend'', ''106'')"
proof -
  have h: "4 \<le> length (url_parts_of ''https://github.com/ai-cfia/fertiscan-backend/pull/106/'')"
    by (simp add: url_parts_of_def rstrip_char_def)
  show ?thesis
    using h decompose_reference_segments [OF h]
    by (simp add: url_parts_of_def rstrip_char_def)
qed

lemma ebind_pure_Inr [simp]: "ebind (pure (Inr a)) f = f a"
  by (simp add: ebind_def pure_def)

lemma ebind_pure_Inl [simp]: "ebind (pure (Inl e)) f = pure (Inl e)"
  by (simp add: ebind_def pure_def)

lemma ebind_InrE:
  assumes "ebind m f w = (Inr b, w')"
  obtains a w1 where "m w = (Inr a, w1)" and "f a w1 = (Inr b, w')"
  using assms by (auto simp: ebind_def split: prod.splits sum.splits)

lemma pure_InrD: "pure r w = (Inr b, w') \<Longrightarrow> r = Inr b \<and> w' = w"
  by (auto simp: pure_def)

lemma requests_get_InrD:
  "requests_get E url h w = (Inr r, w') \<Longrightarrow>
     \<exists>u. url = PStr u \<and> http_get E u h = Inr r \<and> w' = w\<lparr>requests_log := requests_log w @ [u]\<rparr>"
  by (cases url) (auto simp: requests_get_def)

lemma gather_file_Inr:
  assumes "gather_file E dfs file w = (Inr dfs', w')"
  shows "\<exists>filename patch u resp skip.
           py_getitem file ''filename'' = Inr filename
         \<and> py_get file ''patch'' (PStr '''') = Inr patch
         \<and> py_getitem file ''raw_url'' = Inr (PStr u)
         \<and> http_get E u (request_headers E) = Inr resp
         \<and> w' = w\<lparr>requests_log := requests_log w @ [u]\<rparr>
         \<and> skip_file (mime_from_buffer E (content resp)) filename = Inr skip
         \<and> (if skip then dfs' = dfs
             else \<exists>name text. filename = PStr name \<and> decode_utf8 E (content resp) = Some text
                  \<and> dfs' = AList.update name (PDict [(''patch'', patch), (''content'', PStr text)]) dfs)"
proof -
  from assms obtain filename w1 where
    a1: "pure (py_getitem file ''filename'') w = (Inr filename, w1)" and
    r1: "ebind (pure (py_get file ''patch'' (PStr ''''))) (\<lambda>patch.
     ebind (pure (py_getitem file ''raw_url'')) (\<lambda>raw_url.
     ebind (requests_get E raw_url (request_headers E)) (\<lambda>file_content_response.
       let file_content = content file_content_response;
           content_type = mime_from_buffer E file_content
       in ebind (pure (skip_file content_type filename)) (\<lambda>skip.
            if skip then pure (Inr dfs)
            else pure
              (case decode_utf8 E file_content of
                 None \<Rightarrow> Inl UnicodeDecodeError
               | Some text \<Rightarrow>
                   (case filename of
                      PStr name \<Rightarrow>
                        Inr (AList.update name
                               (PDict [(''patch'', patch), (''content'', PStr text)]) dfs)
                    | _ \<Rightarrow> Inl TypeError)))))) w1 = (Inr dfs', w')"
    unfolding gather_file_def by (erule ebind_InrE)
  from r1 obtain patch w2 where
    a2: "pure (py_get file ''patch'' (PStr '''')) w1 = (Inr patch, w2)" and
    r2: "ebind (pure (py_getitem file ''raw_url'')) (\<lambda>raw_url.
     ebind (requests_get E raw_url (request_headers E)) (\<lambda>file_content_response.
       let file_content = content file_content_response;
           content_type = mime_from_buffer E file_content
       in ebind (pure (skip_file content_type filename)) (\<lambda>skip.
            if skip then pure (Inr dfs)
            else pure
              (case decode_utf8 E file_content of
                 None \<Rightarrow> Inl UnicodeDecodeError
               | Some text \<Rightarrow>
                   (case filename of
                      PStr name \<Rightarrow>
                        Inr (AList.update name
                               (PDict [(''patch'', patch), (''content'', PStr text)]) dfs)
                    | _ \<Rightarrow> Inl TypeError))))) w2 = (Inr dfs', w')"
    by (erule ebind_InrE)
  from r2 obtain raw_url w3 where
    a3: "pure (py_getitem file ''raw_url'') w2 = (Inr raw_url, w3)" and
    r3: "ebind (requests_get E raw_url (request_headers E)) (\<lambda>file_content_response.
       let file_content = content file_content_response;
           content_type = mime_from_buffer E file_content
       in ebind (pure (skip_file content_type filename)) (\<lambda>skip.
            if skip then pure (Inr dfs)
            else pure
              (case decode_utf8 E file_content of
                 None \<Rightarrow> Inl UnicodeDecodeError
               | Some text \<Rightarrow>
                   (case filename of
                      PStr name \<Rightarrow>
                        Inr (AList.update name
                               (PDict [(''patch'', patch), (''content'', PStr text)]) dfs)
                    | _ \<Rightarrow> Inl TypeError)))) w3 = (Inr dfs', w')"
    by (erule ebind_InrE)
  from r3 [unfolded Let_def] obtain resp w4 where
    a4: "requests_get E raw_url (request_headers E) w3 = (Inr resp, w4)" and
    r4: "ebind (pure (skip_file (mime_from_buffer E (content resp)) filename)) (\<lambda>skip.
            if skip then pure (Inr dfs)
            else pure
              (case decode_utf8 E (content resp) of
                 None \<Rightarrow> Inl UnicodeDecodeError
               | Some text \<Rightarrow>
                   (case filename of
                      PStr name \<Rightarrow>
                        Inr (AList.update name
                               (PDict [(''patch'', patch), (''content'', PStr text)]) dfs)
                    | _ \<Rightarrow> Inl TypeError))) w4 = (Inr dfs', w')"
    by (erule ebind_InrE)
  from r4 obtain skip w5 where
    a5: "pure (skip_file (mime_from_buffer E (content resp)) filename) w4 = (Inr skip, w5)" and
    r5: "(if skip then pure (Inr dfs)
            else pure
              (case decode_utf8 E (content resp) of
                 None \<Rightarrow> Inl UnicodeDecodeError
               | Some text \<Rightarrow>
                   (case filename of
                      PStr name \<Rightarrow>
                        Inr (AList.update name
                               (PDict [(''patch'', patch), (''content'', PStr text)]) dfs)
                    | _ \<Rightarrow> Inl TypeError))) w5 = (Inr dfs', w')"
    by (erule ebind_InrE)
  note b1 = pure_InrD [OF a1] and b2 = pure_InrD [OF a2] and b3 = pure_InrD [OF a3]
    and b5 = pure_InrD [OF a5]
  from requests_get_InrD [OF a4] obtain u where
    b4: "raw_url = PStr u" "http_get E u (request_headers E) = Inr resp"
        "w4 = w3\<lparr>requests_log := requests_log w3 @ [u]\<rparr>" by blast
  have ww: "w' = w5"
    using r5 by (auto simp: pure_def split: if_splits)
  have last: "if skip then dfs' = dfs
             else \<exists>name text. filename = PStr name \<and> decode_utf8 E (content resp) = Some text
                  \<and> dfs' = AList.update name (PDict [(''patch'', patch), (''content'', PStr text)]) dfs"
  proof (cases skip)
    case True
    with r5 show ?thesis by (simp add: pure_def)
  next
    case False
    with r5 have "(case decode_utf8 E (content resp) of
                 None \<Rightarrow> Inl UnicodeDecodeError
               | Some text \<Rightarrow>
                   (case filename of
                      PStr name \<Rightarrow>
                        Inr (AList.update name
                               (PDict [(''patch'', patch), (''content'', PStr text)]) dfs)
                    | _ \<Rightarrow> Inl TypeError)) = Inr dfs'"
      by (simp add: pure_def)
    with False show ?thesis
      by (cases "decode_utf8 E (content resp)"; cases filename) auto
  qed
  show ?thesis
    using b1 b2 b3 b4 b5 ww last by blast
qed


lemma gather_file_world:
  assumes "gather_file E dfs file w = (Inr dfs', w')"
  shows "\<exists>u. w' = w\<lparr>requests_log := requests_log w @ [u]\<rparr>"
  using gather_file_Inr [OF assms] by blast

lemma gather_file_keys:
  assumes "gather_file E dfs file w = (Inr dfs', w')"
      and "py_getitem file ''filename'' \<noteq> Inr (PStr name)"
  shows "(name \<in> fst ` set dfs') = (name \<in> fst ` set dfs)"
proof -
  from gather_file_Inr [OF assms(1)] obtain filename patch resp skip where
    f: "py_getitem file ''filename'' = Inr filename" and
    l: "if skip then dfs' = dfs
        else \<exists>nm text. filename = PStr nm
             \<and> dfs' = AList.update nm (PDict [(''patch'', patch), (''content'', PStr text)]) dfs"
    by (metis (no_types, lifting))
  show ?thesis
  proof (cases skip)
    case True
    with l show ?thesis by simp
  next
    case False
    with l obtain nm decoded where
      "filename = PStr nm"
      "dfs' = AList.update nm (PDict [(''patch'', patch), (''content'', PStr decoded)]) dfs"
      by auto
    with f assms(2) show ?thesis
      by (auto simp: AList.dom_update)
  qed
qed

lemma gather_file_kept:
  assumes "gather_file E dfs file w = (Inr dfs', w')"
      and "py_getitem file ''filename'' = Inr (PStr name)"
      and "py_getitem file ''raw_url'' = Inr (PStr u)"
      and "http_get E u (request_headers E) = Inr resp"
      and "name \<notin> fst ` set dfs"
  shows "(name \<in> fst ` set dfs') =
           ((sublist ''text'' (mime_from_buffer E (content resp))
             \<or> sublist ''json'' (mime_from_buffer E (content resp)))
            \<and> \<not> suffix ''.excalidraw'' name)"
proof -
  from gather_file_Inr [OF assms(1)] assms(2,3,4) obtain patch skip where
    s: "skip_file (mime_from_buffer E (content resp)) (PStr name) = Inr skip" and
    l: "if skip then dfs' = dfs
        else \<exists>text. dfs' = AList.update name (PDict [(''patch'', patch), (''content'', PStr text)]) dfs"
    by fastforce
  from s have sk: "skip = (\<not> ((sublist ''text'' (mime_from_buffer E (content resp))
             \<or> sublist ''json'' (mime_from_buffer E (content resp)))
            \<and> \<not> suffix ''.excalidraw'' name))"
    by (auto simp: skip_file_def py_endswith_def split: if_splits)
  show ?thesis
  proof (cases skip)
    case True
    with l sk assms(5) show ?thesis by simp
  next
    case False
    with l obtain decoded where
      "dfs' = AList.update name (PDict [(''patch'', patch), (''content'', PStr decoded)]) dfs"
      by auto
    with False sk show ?thesis
      by (simp add: AList.dom_update)
  qed
qed

lemma gather_files_other_keys:
  assumes "gather_files E dfs files w = (Inr dfs', w')"
      and "\<forall>f \<in> set files. py_getitem f ''filename'' \<noteq> Inr (PStr name)"
  shows "(name \<in> fst ` set dfs') = (name \<in> fst ` set dfs)"
  using assms
proof (induction files arbitrary: dfs w)
  case Nil
  then show ?case by (simp add: pure_def)
next
  case (Cons f fs)
  from Cons.prems(1) obtain d1 w1 where
    s1: "gather_file E dfs f w = (Inr d1, w1)" and
    s2: "gather_files E d1 fs w1 = (Inr dfs', w')"
    by (auto elim: ebind_InrE)
  from Cons.prems(2) have "py_getitem f ''filename'' \<noteq> Inr (PStr name)" by simp
  from gather_file_keys [OF s1 this] Cons.IH [OF s2] Cons.prems(2)
  show ?case by simp
qed

lemma gather_files_included:
  assumes "gather_files E dfs files w = (Inr dfs', w')"
      and "distinct (map (\<lambda>f. py_getitem f ''filename'') files)"
      and "file \<in> set files"
      and "py_getitem file ''filename'' = Inr (PStr name)"
      and "py_getitem file ''raw_url'' = Inr (PStr u)"
      and "http_get E u (request_headers E) = Inr resp"
      and "name \<notin> fst ` set dfs"
  shows "(name \<in> fst ` set dfs') =
           ((sublist ''text'' (mime_from_buffer E (content resp))
             \<or> sublist ''json'' (mime_from_buffer E (content resp)))
            \<and> \<not> suffix ''.excalidraw'' name)"
  using assms(1,2,3,7)
proof (induction files arbitrary: dfs w)
  case Nil
  then show ?case by simp
next
  case (Cons f fs)
  from Cons.prems(1) obtain d1 w1 where
    s1: "gather_file E dfs f w = (Inr d1, w1)" and
    s2: "gather_files E d1 fs w1 = (Inr dfs', w')"
    by (auto elim: ebind_InrE)
  show ?case
  proof (cases "f = file")
    case True
    with Cons.prems(2) assms(4)
    have "\<forall>g \<in> set fs. py_getitem g ''filename'' \<noteq> Inr (PStr name)"
      by (auto simp: image_iff)
    from gather_files_other_keys [OF s2 this]
      gather_file_kept [OF s1 [unfolded True] assms(4,5,6) Cons.prems(4)]
    show ?thesis by simp
  next
    case False
    with Cons.prems(3) have m: "file \<in> set fs" by simp
    with Cons.prems(2) assms(4) have "py_getitem f ''filename'' \<noteq> Inr (PStr name)"
      by (auto simp: image_iff)
    from gather_file_keys [OF s1 this] Cons.prems(4)
    have "name \<notin> fst ` set d1" by simp
    from Cons.IH [OF s2 _ m this] Cons.prems(2) show ?thesis by simp
  qed
qed

lemma gather_files_log:
  assumes "gather_files E dfs files w = (Inr dfs', w')"
  shows "length (requests_log w') = length (requests_log w) + length files
         \<and> file_writes w' = file_writes w \<and> chat_log w' = chat_log w
         \<and> node_log w' = node_log w \<and> stdout w' = stdout w"
  using assms
proof (induction files arbitrary: dfs w)
  case Nil
  then show ?case by (simp add: pure_def)
next
  case (Cons f fs)
  from Cons.prems(1) obtain d1 w1 where
    s1: "gather_file E dfs f w = (Inr d1, w1)" and
    s2: "gather_files E d1 fs w1 = (Inr dfs', w')"
    by (auto elim: ebind_InrE)
  from gather_file_world [OF s1] Cons.IH [OF s2] show ?case by auto
qed

lemma ebind_Inr_iff:
  "(ebind m f w = (Inr b, w')) = (\<exists>a w1. m w = (Inr a, w1) \<and> f a w1 = (Inr b, w'))"
  by (auto simp: ebind_def split: prod.splits sum.splits)

lemma pure_Inr_iff: "(pure r w = (Inr b, w')) = (r = Inr b \<and> w' = w)"
  by (auto simp: pure_def)

lemma gather_listing_log:
  assumes "gather_listing E state w = (Inr r, w1)"
  shows "\<exists>a b. w1 = w\<lparr>requests_log := requests_log w @ [a, b]\<rparr>"
  using assms unfolding gather_listing_def
  by (fastforce simp: ebind_Inr_iff pure_Inr_iff case_prod_beta dest!: requests_get_InrD)

lemma gather_pr_info_after_listing:
  assumes "gather_listing E state w = (Inr (desc, files_data), w1)"
      and "py_iter files_data = Inr files"
  shows "gather_pr_info E state w =
           ebind (gather_files E [] files) (\<lambda>dfs.
             pure (Inr [(''pr_info'',
                   PDict [(''description'', desc), (''diffs'', PDict dfs)])])) w1"
  using assms by (simp add: gather_pr_info_def ebind_def pure_def)

lemma sample_listing_run:
  assumes "map_of state ''pr_url'' = Some (PStr ''https://github.com/owner/repo/pull/42'')"
  shows "gather_listing (sample_env c s) state w =
     (Inr (PStr ''Adds a greeting'', sample_listing),
      w\<lparr>requests_log := requests_log w @
           [''https://api.github.com/repos/owner/repo/pulls/42'',
            ''https://host/pulls/42/files'']\<rparr>)"
  using assms
  by (simp add: gather_listing_def sample_env_def state_pr_url_def
        py_getitem_def bind_def decompose_reference_def url_parts_of_def rstrip_char_def
        py_index_def api_url_of_def requests_get_def sample_http_get_def ebind_def pure_def
        py_get_def py_add_str_def request_headers_def)

lemma sample_files: "py_iter sample_listing =
     Inr [PDict [(''filename'', PStr ''README.md''), (''patch'', PStr ''+hello''),
                   (''raw_url'', PStr ''https://host/raw/README.md'')],
            PDict [(''filename'', PStr ''logo.png''),
                   (''raw_url'', PStr ''https://host/raw/logo.png'')]]"
  by (simp add: py_iter_def sample_listing_def)

lemma sample_gather_run:
  assumes "map_of state ''pr_url'' = Some (PStr ''https://github.com/owner/repo/pull/42'')"
  shows "gather_pr_info (sample_env c s) state w =
     (Inr [(''pr_info'', sample_pr_info)],
      w\<lparr>requests_log := requests_log w @
           [''https://api.github.com/repos/owner/repo/pulls/42'',
            ''https://host/pulls/42/files'',
            ''https://host/raw/README.md'',
            ''https://host/raw/logo.png'']\<rparr>)"
  unfolding gather_pr_info_after_listing [OF sample_listing_run [OF assms] sample_files]
  by (simp add: gather_file_def sample_env_def sample_pr_info_def
        py_getitem_def requests_get_def sample_http_get_def ebind_def pure_def
        py_get_def request_headers_def skip_file_def py_endswith_def sublist_code
        suffix_to_prefix Let_def)

lemma sample_state_url:
  "map_of sample_state ''pr_url'' = Some (PStr ''https://github.com/owner/repo/pull/42'')"
  by (simp add: sample_state_def)

text \<open>
  C2. In the ChangeInfo that the Gather stage returns, a file entry of the listing (the
  filenames of a listing are pairwise different) is a key of \<open>diffs\<close> if and only if its
  detected content type contains \<open>text\<close> or contains \<open>json\<close>, and its filename does not
  end in \<open>.excalidraw\<close>.
\<close>

theorem gather_diffs_inclusion:
  assumes "gather_listing E state w = (Inr (desc, files_data), w1)"
      and "py_iter files_data = Inr files"
      and "gather_pr_info E state w = (Inr upd, w')"
      and "distinct (map (\<lambda>f. py_getitem f ''filename'') files)"
      and "file \<in> set files"
      and "py_getitem file ''filename'' = Inr (PStr name)"
      and "py_getitem file ''raw_url'' = Inr (PStr u)"
      and "http_get E u (request_headers E) = Inr resp"
  shows "\<exists>dfs. upd = [(''pr_info'', PDict [(''description'', desc), (''diffs'', PDict dfs)])]
           \<and> (name \<in> fst ` set dfs) =
               ((sublist ''text'' (mime_from_buffer E (content resp))
                 \<or> sublist ''json'' (mime_from_buffer E (content resp)))
                \<and> \<not> suffix ''.excalidraw'' name)"
proof -
  from assms(3) gather_pr_info_after_listing [OF assms(1,2)]
  obtain dfs w2 where g: "gather_files E [] files w1 = (Inr dfs, w2)"
    and u: "upd = [(''pr_info'', PDict [(''description'', desc), (''diffs'', PDict dfs)])]"
    by (auto simp: ebind_Inr_iff pure_Inr_iff)
  from gather_files_included [OF g assms(4,5,6,7,8)] u show ?thesis by simp
qed

theorem gather_diffs_inclusion_witness:
  "(\<exists>dfs. fst (gather_pr_info (sample_env failing_client False) sample_state world0)
            = Inr [(''pr_info'', PDict [(''description'', PStr ''Adds a greeting''),
                                        (''diffs'', PDict dfs)])]
         \<and> ''logo.png'' \<notin> fst ` set dfs)"
proof -
  let ?E = "sample_env failing_client False"
  let ?png = "PDict [(''filename'', PStr ''logo.png''),
                     (''raw_url'', PStr ''https://host/raw/logo.png'')]"
  have d: "distinct (map (\<lambda>f. py_getitem f ''filename'')
             [PDict [(''filename'', PStr ''README.md''), (''patch'', PStr ''+hello''),
                     (''raw_url'', PStr ''https://host/raw/README.md'')], ?png])"
    by (simp add: py_getitem_def)
  have m: "?png \<in> set [PDict [(''filename'', PStr ''README.md''), (''patch'', PStr ''+hello''),
                     (''raw_url'', PStr ''https://host/raw/README.md'')], ?png]"
    by simp
  have f: "py_getitem ?png ''filename'' = Inr (PStr ''logo.png'')"
    by (simp add: py_getitem_def)
  have r: "py_getitem ?png ''raw_url'' = Inr (PStr ''https://host/raw/logo.png'')"
    by (simp add: py_getitem_def)
  have h: "http_get ?E ''https://host/raw/logo.png'' (request_headers ?E)
             = Inr \<lparr>json_body = Inl (External ''JSONDecodeError''), content = ''PNG''\<rparr>"
    by (simp add: sample_env_def sample_http_get_def)
  note l = sample_listing_run [OF sample_state_url, where c = failing_client and s = False
             and w = world0]
  note g = sample_gather_run [OF sample_state_url, where c = failing_client and s = False
             and w = world0]
  from gather_diffs_inclusion [OF l sample_files g d m f r h]
  obtain dfs where
    u: "[(''pr_info'', sample_pr_info)]
        = [(''pr_info'', PDict [(''description'', PStr ''Adds a greeting''),
                                (''diffs'', PDict dfs)])]" and
    k: "(''logo.png'' \<in> fst ` set dfs) =
          ((sublist ''text'' (mime_from_buffer ?E
               (content \<lparr>json_body = Inl (External ''JSONDecodeError''), content = ''PNG''\<rparr>))
            \<or> sublist ''json'' (mime_from_buffer ?E
               (content \<lparr>json_body = Inl (External ''JSONDecodeError''), content = ''PNG''\<rparr>)))
           \<and> \<not> suffix ''.excalidraw'' ''logo.png'')"
    by blast
  from k have "''logo.png'' \<notin> fst ` set dfs"
    by (simp add: sample_env_def sublist_code)
  with u show ?thesis
    by (auto simp: g)
qed

lemma generate_reply_fst: "fst (generate_reply E r w) = reply_of E r"
  by (simp add: generate_reply_def reply_of_def Let_def split: sum.splits)

lemma generate_reply_frame:
  "node_log (snd (generate_reply E r w)) = node_log w
   \<and> file_writes (snd (generate_reply E r w)) = file_writes w
   \<and> requests_log (snd (generate_reply E r w)) = requests_log w
   \<and> chat_log (snd (generate_reply E r w)) = chat_log w @ [r]"
  by (simp add: generate_reply_def Let_def split: sum.splits)

lemma print_reply_frame:
  "node_log (print_reply l r w) = node_log w
   \<and> file_writes (print_reply l r w) = file_writes w
   \<and> requests_log (print_reply l r w) = requests_log w
   \<and> chat_log (print_reply l r w) = chat_log w"
  by (simp add: print_reply_def)

lemma reply_of_failure: "chat_create E r = Inl e \<Longrightarrow> reply_of E r = placeholder"
  by (simp add: reply_of_def attempt_reply_def bind_def)

lemma reply_of_success:
  "chat_create E r = Inr resp \<Longrightarrow> choices resp = c # cs \<Longrightarrow> message_content c = Some t
   \<Longrightarrow> reply_of E r = strip t"
  by (simp add: reply_of_def attempt_reply_def bind_def py_index_def)

lemma contextualize_info_fst:
  "map_of state ''pr_info'' = Some info \<Longrightarrow>
   fst (contextualize_info E state w)
     = Inr [(''context'', PStr (reply_of E (contextualize_request E info)))]"
  by (simp add: contextualize_info_def py_getitem_def case_prod_beta generate_reply_fst
        ebind_def pure_def)

lemma extract_features_fst:
  "map_of state ''pr_info'' = Some info \<Longrightarrow> map_of state ''context'' = Some c \<Longrightarrow>
   fst (extract_features E state w)
     = Inr [(''features'', PStr (reply_of E (extract_features_request E info c)))]"
  by (simp add: extract_features_def py_getitem_def case_prod_beta generate_reply_fst
        ebind_def pure_def)

lemma create_expert_checklist_fst:
  "map_of state ''pr_info'' = Some info \<Longrightarrow> map_of state ''context'' = Some c \<Longrightarrow>
   map_of state ''features'' = Some f \<Longrightarrow>
   fst (create_expert_checklist E state w)
     = Inr [(''team_review'', PStr (reply_of E (create_expert_checklist_request E info c f)))]"
  by (simp add: create_expert_checklist_def py_getitem_def case_prod_beta generate_reply_fst
        ebind_def pure_def)

lemma final_review_fst:
  "fst (final_review E state w)
     = Inr [(''final report'', PStr (reply_of E (final_review_request E state)))]"
  by (simp add: final_review_def case_prod_beta generate_reply_fst)

lemma contextualize_info_frame:
  "node_log (snd (contextualize_info E state w)) = node_log w
   \<and> file_writes (snd (contextualize_info E state w)) = file_writes w
   \<and> requests_log (snd (contextualize_info E state w)) = requests_log w"
  by (simp add: contextualize_info_def ebind_def pure_def case_prod_beta
        generate_reply_frame print_reply_frame split: sum.splits)

lemma extract_features_frame:
  "node_log (snd (extract_features E state w)) = node_log w
   \<and> file_writes (snd (extract_features E state w)) = file_writes w
   \<and> requests_log (snd (extract_features E state w)) = requests_log w"
  by (simp add: extract_features_def ebind_def pure_def case_prod_beta
        generate_reply_frame print_reply_frame split: sum.splits)

lemma create_expert_checklist_frame:
  "node_log (snd (create_expert_checklist E state w)) = node_log w
   \<and> file_writes (snd (create_expert_checklist E state w)) = file_writes w
   \<and> requests_log (snd (create_expert_checklist E state w)) = requests_log w"
  by (simp add: create_expert_checklist_def ebind_def pure_def case_prod_beta
        generate_reply_frame print_reply_frame split: sum.splits)

lemma final_review_frame:
  "node_log (snd (final_review E state w)) = node_log w
   \<and> file_writes (snd (final_review E state w)) = file_writes w
   \<and> requests_log (snd (final_review E state w)) = requests_log w"
  by (simp add: final_review_def case_prod_beta generate_reply_frame print_reply_frame)

lemma apply_update_schema:
  "k \<in> set schema_keys \<Longrightarrow> apply_update r st [(k, v)] = Inr (AList.update k v st)"
  by (simp add: apply_update_def)

lemma apply_update_foreign:
  "k \<notin> set schema_keys \<Longrightarrow>
   apply_update r st [(k, v)] = (if r then Inl InvalidUpdateError else Inr st)"
  by (simp add: apply_update_def)

lemma run_from_step:
  assumes "node \<noteq> END" and "map_of (nodes E) node = Some f"
      and "fst (f state w) = Inr upd"
      and "apply_update (refuses_foreign_update E) state upd = Inr st'"
      and "map_of edges node = Some nxt"
  shows "run_from E (Suc n) node state w
           = run_from E n nxt st'
               ((snd (f state w))\<lparr>node_log := node_log (snd (f state w)) @ [(node, state)]\<rparr>)"
  using assms by (simp add: call_node_def ebind_def pure_def case_prod_beta)

lemma run_from_raise:
  assumes "node \<noteq> END" and "map_of (nodes E) node = Some f"
      and "fst (f state w) = Inl e"
  shows "run_from E (Suc n) node state w
           = (Inl e, (snd (f state w))\<lparr>node_log := node_log (snd (f state w)) @ [(node, state)]\<rparr>)"
  using assms by (simp add: call_node_def ebind_def pure_def case_prod_beta)

lemma run_from_refused:
  assumes "node \<noteq> END" and "map_of (nodes E) node = Some f"
      and "fst (f state w) = Inr upd"
      and "apply_update (refuses_foreign_update E) state upd = Inl e"
  shows "run_from E (Suc n) node state w
           = (Inl e, (snd (f state w))\<lparr>node_log := node_log (snd (f state w)) @ [(node, state)]\<rparr>)"
  using assms by (simp add: call_node_def ebind_def pure_def case_prod_beta)

lemma run_from_END: "run_from E (Suc n) END state w = (Inr state, w)"
  by (simp add: pure_def)

lemma step_contextualize:
  assumes "map_of st ''pr_info'' = Some info"
  shows "\<exists>w'. run_from E (Suc n) ''contextualize_info'' st w
           = run_from E n ''extract_features''
               (AList.update ''context'' (PStr (reply_of E (contextualize_request E info))) st) w'
         \<and> node_log w' = node_log w @ [(''contextualize_info'', st)]
         \<and> file_writes w' = file_writes w \<and> requests_log w' = requests_log w"
proof -
  have "run_from E (Suc n) ''contextualize_info'' st w
           = run_from E n ''extract_features''
               (AList.update ''context'' (PStr (reply_of E (contextualize_request E info))) st)
               ((snd (contextualize_info E st w))\<lparr>node_log :=
                   node_log (snd (contextualize_info E st w)) @ [(''contextualize_info'', st)]\<rparr>)"
    by (rule run_from_step [where upd = "[(''context'', PStr (reply_of E (contextualize_request E info)))]"])
       (simp_all add: END_def nodes_def edges_def contextualize_info_fst [OF assms]
          apply_update_schema schema_keys_def)
  then show ?thesis
    using contextualize_info_frame [of E st w] by (intro exI conjI) (assumption, simp_all)
qed

lemma step_extract:
  assumes "map_of st ''pr_info'' = Some info" and "map_of st ''context'' = Some c"
  shows "\<exists>w'. run_from E (Suc n) ''extract_features'' st w
           = run_from E n ''create_expert_checklist''
               (AList.update ''features'' (PStr (reply_of E (extract_features_request E info c))) st) w'
         \<and> node_log w' = node_log w @ [(''extract_features'', st)]
         \<and> file_writes w' = file_writes w \<and> requests_log w' = requests_log w"
proof -
  have "run_from E (Suc n) ''extract_features'' st w
           = run_from E n ''create_expert_checklist''
               (AList.update ''features'' (PStr (reply_of E (extract_features_request E info c))) st)
               ((snd (extract_features E st w))\<lparr>node_log :=
                   node_log (snd (extract_features E st w)) @ [(''extract_features'', st)]\<rparr>)"
    by (rule run_from_step [where upd = "[(''features'', PStr (reply_of E (extract_features_request E info c)))]"])
       (simp_all add: END_def nodes_def edges_def extract_features_fst [OF assms]
          apply_update_schema schema_keys_def)
  then show ?thesis
    using extract_features_frame [of E st w] by (intro exI conjI) (assumption, simp_all)
qed

lemma step_checklist:
  assumes "map_of st ''pr_info'' = Some info" and "map_of st ''context'' = Some c"
      and "map_of st ''features'' = Some f"
  shows "\<exists>w'. run_from E (Suc n) ''create_expert_checklist'' st w
           = run_from E n ''final_review''
               (AList.update ''team_review''
                  (PStr (reply_of E (create_expert_checklist_request E info c f))) st) w'
         \<and> node_log w' = node_log w @ [(''create_expert_checklist'', st)]
         \<and> file_writes w' = file_writes w \<and> requests_log w' = requests_log w"
proof -
  have "run_from E (Suc n) ''create_expert_checklist'' st w
           = run_from E n ''final_review''
               (AList.update ''team_review''
                  (PStr (reply_of E (create_expert_checklist_request E info c f))) st)
               ((snd (create_expert_checklist E st w))\<lparr>node_log :=
                   node_log (snd (create_expert_checklist E st w))
                     @ [(''create_expert_checklist'', st)]\<rparr>)"
    by (rule run_from_step [where upd = "[(''team_review'',
              PStr (reply_of E (create_expert_checklist_request E info c f)))]"])
       (simp_all add: END_def nodes_def edges_def create_expert_checklist_fst [OF assms]
          apply_update_schema schema_keys_def)
  then show ?thesis
    using create_expert_checklist_frame [of E st w] by (intro exI conjI) (assumption, simp_all)
qed

lemma step_final:
  "\<exists>w'. run_from E (Suc (Suc n)) ''final_review'' st w
           = ((if refuses_foreign_update E then Inl InvalidUpdateError else Inr st), w')
         \<and> node_log w' = node_log w @ [(''final_review'', st)]
         \<and> file_writes w' = file_writes w \<and> requests_log w' = requests_log w"
proof (cases "refuses_foreign_update E")
  case True
  have "run_from E (Suc (Suc n)) ''final_review'' st w
          = (Inl InvalidUpdateError,
             (snd (final_review E st w))\<lparr>node_log :=
                 node_log (snd (final_review E st w)) @ [(''final_review'', st)]\<rparr>)"
    by (rule run_from_refused [where upd = "[(''final report'',
              PStr (reply_of E (final_review_request E st)))]"])
       (simp_all add: END_def nodes_def final_review_fst apply_update_foreign schema_keys_def True)
  then show ?thesis
    using final_review_frame [of E st w] True by (intro exI conjI) (simp, simp_all)
next
  case False
  let ?W = "(snd (final_review E st w))\<lparr>node_log :=
                 node_log (snd (final_review E st w)) @ [(''final_review'', st)]\<rparr>"
  have "run_from E (Suc (Suc n)) ''final_review'' st w = run_from E (Suc n) END st ?W"
    by (rule run_from_step [where upd = "[(''final report'',
              PStr (reply_of E (final_review_request E st)))]"])
       (simp_all add: END_def nodes_def edges_def final_review_fst apply_update_foreign
          schema_keys_def False)
  then have "run_from E (Suc (Suc n)) ''final_review'' st w = (Inr st, ?W)"
    by (simp only: run_from_END)
  then show ?thesis
    using final_review_frame [of E st w] False
    by (intro exI [of _ ?W]) simp
qed

lemma gather_pr_info_Inr:
  assumes "gather_pr_info E st w = (Inr upd, w')"
  shows "(\<exists>info. upd = [(''pr_info'', info)])
         \<and> node_log w' = node_log w \<and> file_writes w' = file_writes w"
proof -
  from assms obtain r w1 where l: "gather_listing E st w = (Inr r, w1)"
    and rest: "(case r of (pr_description, files_data) \<Rightarrow>
       ebind (pure (py_iter files_data)) (\<lambda>files.
       ebind (gather_files E [] files) (\<lambda>dfs.
         pure (Inr [(''pr_info'',
                   PDict [(''description'', pr_description),
                          (''diffs'', PDict dfs)])])))) w1 = (Inr upd, w')"
    unfolding gather_pr_info_def by (erule ebind_InrE)
  obtain desc fd where r: "r = (desc, fd)" by (cases r)
  from rest r obtain files dfs w2 where
    "gather_files E [] files w1 = (Inr dfs, w2)" and
    "upd = [(''pr_info'', PDict [(''description'', desc), (''diffs'', PDict dfs)])]" and "w' = w2"
    by (auto simp: ebind_Inr_iff pure_Inr_iff)
  with gather_listing_log [OF l] gather_files_log [of E "[]" files w1 dfs w2]
  show ?thesis by auto
qed

lemma step_gather:
  assumes "fst (gather_pr_info E st w) = Inr upd"
  shows "\<exists>info w'. upd = [(''pr_info'', info)]
         \<and> run_from E (Suc n) ''gather_pr_info'' st w
           = run_from E n ''contextualize_info'' (AList.update ''pr_info'' info st) w'
         \<and> node_log w' = node_log w @ [(''gather_pr_info'', st)]
         \<and> file_writes w' = file_writes w
         \<and> requests_log w' = requests_log (snd (gather_pr_info E st w))"
proof -
  from assms have g: "gather_pr_info E st w = (Inr upd, snd (gather_pr_info E st w))"
    by (metis prod.collapse)
  from gather_pr_info_Inr [OF g] obtain info where
    u: "upd = [(''pr_info'', info)]" and
    f: "node_log (snd (gather_pr_info E st w)) = node_log w"
       "file_writes (snd (gather_pr_info E st w)) = file_writes w"
    by blast
  have "run_from E (Suc n) ''gather_pr_info'' st w
          = run_from E n ''contextualize_info'' (AList.update ''pr_info'' info st)
             ((snd (gather_pr_info E st w))\<lparr>node_log :=
                 node_log (snd (gather_pr_info E st w)) @ [(''gather_pr_info'', st)]\<rparr>)"
    by (rule run_from_step [where upd = "[(''pr_info'', info)]"])
       (simp_all add: END_def nodes_def edges_def assms [unfolded u]
          apply_update_schema schema_keys_def)
  then show ?thesis
    using u f by (intro exI conjI) (assumption, assumption, simp_all)
qed

lemma invoke_summary:
  fixes E :: env and input :: pydict and w :: world and info :: pyval
  defines "st0 \<equiv> filter (\<lambda>kv. fst kv \<in> set schema_keys) input"
  defines "s1 \<equiv> AList.update ''pr_info'' info st0"
  defines "c \<equiv> PStr (reply_of E (contextualize_request E info))"
  defines "s2 \<equiv> AList.update ''context'' c s1"
  defines "f \<equiv> PStr (reply_of E (extract_features_request E info c))"
  defines "s3 \<equiv> AList.update ''features'' f s2"
  defines "t \<equiv> PStr (reply_of E (create_expert_checklist_request E info c f))"
  defines "s4 \<equiv> AList.update ''team_review'' t s3"
  assumes g: "fst (gather_pr_info E st0 w) = Inr [(''pr_info'', info)]"
  shows "\<exists>w'. invoke E input w
                 = ((if refuses_foreign_update E then Inl InvalidUpdateError else Inr s4), w')
     \<and> node_log w' = node_log w @ [(''gather_pr_info'', st0), (''contextualize_info'', s1),
           (''extract_features'', s2), (''create_expert_checklist'', s3), (''final_review'', s4)]
     \<and> file_writes w' = file_writes w
     \<and> requests_log w' = requests_log (snd (gather_pr_info E st0 w))"
proof -
  have n: "recursion_limit = Suc (Suc (Suc (Suc (Suc (Suc 19)))))"
    by (simp add: recursion_limit_def)
  have i: "invoke E input w = run_from E (Suc (Suc (Suc (Suc (Suc (Suc 19)))))) ''gather_pr_info'' st0 w"
    by (simp only: invoke_def n entry_point_def st0_def)
  from step_gather [OF g, of "Suc (Suc (Suc (Suc (Suc 19))))"] obtain w1 where
    r1: "run_from E (Suc (Suc (Suc (Suc (Suc (Suc 19)))))) ''gather_pr_info'' st0 w
           = run_from E (Suc (Suc (Suc (Suc (Suc 19))))) ''contextualize_info'' s1 w1" and
    l1: "node_log w1 = node_log w @ [(''gather_pr_info'', st0)]" and
    f1: "file_writes w1 = file_writes w"
        "requests_log w1 = requests_log (snd (gather_pr_info E st0 w))"
    unfolding s1_def by auto
  have m1: "map_of s1 ''pr_info'' = Some info"
    by (simp add: s1_def update_conv')
  from step_contextualize [OF m1, of E "Suc (Suc (Suc (Suc 19)))" w1] obtain w2 where
    r2: "run_from E (Suc (Suc (Suc (Suc (Suc 19))))) ''contextualize_info'' s1 w1
           = run_from E (Suc (Suc (Suc (Suc 19)))) ''extract_features'' s2 w2" and
    l2: "node_log w2 = node_log w1 @ [(''contextualize_info'', s1)]" and
    f2: "file_writes w2 = file_writes w1" "requests_log w2 = requests_log w1"
    unfolding s2_def c_def by auto
  have m2: "map_of s2 ''pr_info'' = Some info" "map_of s2 ''context'' = Some c"
    using m1 by (simp_all add: s2_def update_conv')
  from step_extract [OF m2, of E "Suc (Suc (Suc 19))" w2] obtain w3 where
    r3: "run_from E (Suc (Suc (Suc (Suc 19)))) ''extract_features'' s2 w2
           = run_from E (Suc (Suc (Suc 19))) ''create_expert_checklist'' s3 w3" and
    l3: "node_log w3 = node_log w2 @ [(''extract_features'', s2)]" and
    f3: "file_writes w3 = file_writes w2" "requests_log w3 = requests_log w2"
    unfolding s3_def f_def by auto
  have m3: "map_of s3 ''pr_info'' = Some info" "map_of s3 ''context'' = Some c"
           "map_of s3 ''features'' = Some f"
    using m2 by (simp_all add: s3_def update_conv')
  from step_checklist [OF m3, of E "Suc (Suc 19)" w3] obtain w4 where
    r4: "run_from E (Suc (Suc (Suc 19))) ''create_expert_checklist'' s3 w3
           = run_from E (Suc (Suc 19)) ''final_review'' s4 w4" and
    l4: "node_log w4 = node_log w3 @ [(''create_expert_checklist'', s3)]" and
    f4: "file_writes w4 = file_writes w3" "requests_log w4 = requests_log w3"
    unfolding s4_def t_def by auto
  from step_final [of E 19 s4 w4] obtain w5 where
    r5: "run_from E (Suc (Suc 19)) ''final_review'' s4 w4
           = ((if refuses_foreign_update E then Inl InvalidUpdateError else Inr s4), w5)" and
    l5: "node_log w5 = node_log w4 @ [(''final_review'', s4)]" and
    f5: "file_writes w5 = file_writes w4" "requests_log w5 = requests_log w4"
    by auto
  have "invoke E input w
          = ((if refuses_foreign_update E then Inl InvalidUpdateError else Inr s4), w5)"
    by (simp only: i r1 r2 r3 r4 r5)
  moreover have "node_log w5 = node_log w @ [(''gather_pr_info'', st0), (''contextualize_info'', s1),
           (''extract_features'', s2), (''create_expert_checklist'', s3), (''final_review'', s4)]"
    by (simp add: l1 l2 l3 l4 l5)
  moreover have "file_writes w5 = file_writes w"
    by (simp add: f1 f2 f3 f4 f5)
  moreover have "requests_log w5 = requests_log (snd (gather_pr_info E st0 w))"
    by (simp add: f1 f2 f3 f4 f5)
  ultimately show ?thesis by blast
qed

lemma initial_state_filter:
  "filter (\<lambda>kv. fst kv \<in> set schema_keys) (initial_state pr_url) = initial_state pr_url"
  by (simp add: initial_state_def schema_keys_def)

lemma invoke_gather_raises:
  assumes "fst (gather_pr_info E (filter (\<lambda>kv. fst kv \<in> set schema_keys) input) w) = Inl e"
  shows "invoke E input w =
           (Inl e, (snd (gather_pr_info E (filter (\<lambda>kv. fst kv \<in> set schema_keys) input) w))
                     \<lparr>node_log := node_log (snd (gather_pr_info E
                          (filter (\<lambda>kv. fst kv \<in> set schema_keys) input) w))
                        @ [(''gather_pr_info'', filter (\<lambda>kv. fst kv \<in> set schema_keys) input)]\<rparr>)"
proof -
  have n: "recursion_limit = Suc 24"
    by (simp add: recursion_limit_def)
  show ?thesis
    unfolding invoke_def n entry_point_def
    by (rule run_from_raise [where f = "gather_pr_info E"])
       (simp_all add: END_def nodes_def assms)
qed

text \<open>
  C4. When the reference has fewer than four segments, the decomposition in the Gather
  stage raises IndexError; the run ends there, with the Gather node the only node called,
  no request sent, and neither \<open>result.json\<close> nor \<open>final_report.md\<close> written.
\<close>

theorem short_reference_aborts:
  assumes "length (url_parts_of pr_url) < 4"
  shows "run_script E pr_url w =
           (Inl IndexError,
            w\<lparr>node_log := node_log w @ [(''gather_pr_info'', initial_state pr_url)]\<rparr>)"
proof -
  have d: "decompose_reference pr_url = Inl IndexError"
    using py_index_too_short [of "url_parts_of pr_url" 4] assms
    by (simp add: decompose_reference_def bind_def)
  have g: "gather_pr_info E (initial_state pr_url) w = (Inl IndexError, w)"
    by (simp add: gather_pr_info_def gather_listing_def state_pr_url_def initial_state_def
          py_getitem_def bind_def d pure_def ebind_def)
  have "invoke E (initial_state pr_url) w =
          (Inl IndexError,
           w\<lparr>node_log := node_log w @ [(''gather_pr_info'', initial_state pr_url)]\<rparr>)"
    using invoke_gather_raises [of E "initial_state pr_url" w IndexError]
    by (simp add: initial_state_filter g)
  then show ?thesis
    by (simp add: run_script_def ebind_def)
qed

theorem short_reference_aborts_witness:
  "length (url_parts_of ''not-a-valid-url'') < 4
   \<and> fst (run_script (sample_env failing_client False) ''not-a-valid-url'' world0) = Inl IndexError
   \<and> file_writes (snd (run_script (sample_env failing_client False) ''not-a-valid-url'' world0)) = []
   \<and> requests_log (snd (run_script (sample_env failing_client False) ''not-a-valid-url'' world0)) = []"
proof -
  have h: "length (url_parts_of ''not-a-valid-url'') < 4"
    by (simp add: url_parts_of_def rstrip_char_def)
  show ?thesis
    using h short_reference_aborts [OF h, of "sample_env failing_client False" world0]
    by (simp add: world0_def)
qed


lemma sample_initial_url:
  "map_of (initial_state ''https://github.com/owner/repo/pull/42'') ''pr_url''
     = Some (PStr ''https://github.com/owner/repo/pull/42'')"
  by (simp add: initial_state_def)

lemma reply_of_same_client:
  "chat_create E1 = chat_create E2 \<Longrightarrow> reply_of E1 r = reply_of E2 r"
  by (simp add: reply_of_def attempt_reply_def)

lemma py_format_same: "py_repr E1 = py_repr E2 \<Longrightarrow> py_format E1 v = py_format E2 v"
  by (cases v) (simp_all add: py_format_def)

lemma requests_same_serialisers:
  assumes "json_dumps E1 = json_dumps E2" and "py_repr E1 = py_repr E2"
  shows "contextualize_request E1 info = contextualize_request E2 info"
    and "extract_features_request E1 info c = extract_features_request E2 info c"
    and "create_expert_checklist_request E1 info c f
           = create_expert_checklist_request E2 info c f"
    and "final_review_request E1 st = final_review_request E2 st"
  by (simp_all only: contextualize_request_def contextualize_prompt_def
        extract_features_request_def extract_features_prompt_def
        create_expert_checklist_request_def create_expert_checklist_prompt_def
        final_review_request_def final_review_prompt_def
        assms(1) py_format_same [OF assms(2)])

text \<open>
  C8. Two runs from the same initial state, by environments whose text-generation
  client, serialisers and graph library agree and whose Gather stages return the same
  ChangeInfo (or raise the same exception), end in the same final state (or the same
  exception), whatever else differs between the environments and the worlds.
\<close>

theorem runs_are_deterministic:
  fixes E1 E2 :: env and input :: pydict and w1 w2 :: world
  defines "st0 \<equiv> filter (\<lambda>kv. fst kv \<in> set schema_keys) input"
  assumes "chat_create E1 = chat_create E2"
      and "json_dumps E1 = json_dumps E2"
      and "py_repr E1 = py_repr E2"
      and "refuses_foreign_update E1 = refuses_foreign_update E2"
      and "fst (gather_pr_info E1 st0 w1) = fst (gather_pr_info E2 st0 w2)"
  shows "fst (invoke E1 input w1) = fst (invoke E2 input w2)"
proof (cases "fst (gather_pr_info E1 st0 w1)")
  case (Inl e)
  with assms(6) have "fst (gather_pr_info E2 st0 w2) = Inl e" by simp
  from invoke_gather_raises [OF Inl [unfolded st0_def]]
    invoke_gather_raises [OF this [unfolded st0_def]]
  show ?thesis by simp
next
  case (Inr upd)
  then have "gather_pr_info E1 st0 w1 = (Inr upd, snd (gather_pr_info E1 st0 w1))"
    by (metis prod.collapse)
  from gather_pr_info_Inr [OF this] obtain info where u: "upd = [(''pr_info'', info)]"
    by blast
  have g1: "fst (gather_pr_info E1 (filter (\<lambda>kv. fst kv \<in> set schema_keys) input) w1)
              = Inr [(''pr_info'', info)]"
    using Inr u by (simp add: st0_def)
  have g2: "fst (gather_pr_info E2 (filter (\<lambda>kv. fst kv \<in> set schema_keys) input) w2)
              = Inr [(''pr_info'', info)]"
    using Inr u assms(6) by (simp add: st0_def)
  note rq = requests_same_serialisers [OF assms(3,4)]
  note rp = reply_of_same_client [OF assms(2)]
  from invoke_summary [OF g1] invoke_summary [OF g2]
  show ?thesis
    by (auto simp: rq rp assms(5))
qed

lemma other_gather_run:
  assumes "map_of state ''pr_url'' = Some (PStr ''https://github.com/owner/repo/pull/42'')"
  shows "fst (gather_pr_info other_env state w) = Inr [(''pr_info'', sample_pr_info)]"
proof -
  have l: "gather_listing other_env state w =
     (Inr (PStr ''Adds a greeting'', sample_listing),
      w\<lparr>requests_log := requests_log w @
           [''https://api.github.com/repos/owner/repo/pulls/42'',
            ''https://host/pulls/42/files'']\<rparr>)"
    using assms
    by (simp add: gather_listing_def other_env_def sample_env_def state_pr_url_def
        py_getitem_def bind_def decompose_reference_def url_parts_of_def rstrip_char_def
        py_index_def api_url_of_def requests_get_def sample_http_get_def ebind_def pure_def
        py_get_def py_add_str_def request_headers_def)
  show ?thesis
    unfolding gather_pr_info_after_listing [OF l sample_files]
    by (simp add: gather_file_def other_env_def sample_env_def sample_pr_info_def
        py_getitem_def requests_get_def sample_http_get_def ebind_def pure_def
        py_get_def request_headers_def skip_file_def py_endswith_def sublist_code
        suffix_to_prefix Let_def)
qed

theorem runs_are_deterministic_witness:
  "fst (gather_pr_info (sample_env replying_client False)
          (filter (\<lambda>kv. fst kv \<in> set schema_keys)
             (initial_state ''https://github.com/owner/repo/pull/42'')) world0)
     = fst (gather_pr_info other_env
          (filter (\<lambda>kv. fst kv \<in> set schema_keys)
             (initial_state ''https://github.com/owner/repo/pull/42''))
          (world0\<lparr>stdout := [''an earlier line'']\<rparr>))
   \<and> fst (invoke (sample_env replying_client False)
            (initial_state ''https://github.com/owner/repo/pull/42'') world0)
     = fst (invoke other_env
            (initial_state ''https://github.com/owner/repo/pull/42'')
            (world0\<lparr>stdout := [''an earlier line'']\<rparr>))"
proof -
  have a: "chat_create (sample_env replying_client False) = chat_create other_env"
    and b: "json_dumps (sample_env replying_client False) = json_dumps other_env"
    and c: "py_repr (sample_env replying_client False) = py_repr other_env"
    and d: "refuses_foreign_update (sample_env replying_client False)
              = refuses_foreign_update other_env"
    by (simp_all add: other_env_def)
  have g: "fst (gather_pr_info (sample_env replying_client False)
          (filter (\<lambda>kv. fst kv \<in> set schema_keys)
             (initial_state ''https://github.com/owner/repo/pull/42'')) world0)
     = fst (gather_pr_info other_env
          (filter (\<lambda>kv. fst kv \<in> set schema_keys)
             (initial_state ''https://github.com/owner/repo/pull/42''))
          (world0\<lparr>stdout := [''an earlier line'']\<rparr>))"
    by (simp add: initial_state_filter sample_gather_run [OF sample_initial_url]
          other_gather_run [OF sample_initial_url])
  from runs_are_deterministic [OF a b c d g] g show ?thesis
    by simp
qed

lemma contextualize_info_shape:
  "fst (contextualize_info E st w) = Inr upd \<Longrightarrow> \<exists>v. upd = [(''context'', v)]"
  by (cases "py_getitem (PDict st) ''pr_info''")
     (auto simp: contextualize_info_def ebind_def pure_def case_prod_beta)

lemma extract_features_shape:
  "fst (extract_features E st w) = Inr upd \<Longrightarrow> \<exists>v. upd = [(''features'', v)]"
  by (cases "py_getitem (PDict st) ''pr_info''"; cases "py_getitem (PDict st) ''context''")
     (auto simp: extract_features_def ebind_def pure_def case_prod_beta)

lemma create_expert_checklist_shape:
  "fst (create_expert_checklist E st w) = Inr upd \<Longrightarrow> \<exists>v. upd = [(''team_review'', v)]"
  by (cases "py_getitem (PDict st) ''pr_info''"; cases "py_getitem (PDict st) ''context''";
      cases "py_getitem (PDict st) ''features''")
     (auto simp: create_expert_checklist_def ebind_def pure_def case_prod_beta)

lemma gather_pr_info_shape:
  assumes "fst (gather_pr_info E st w) = Inr upd"
  shows "\<exists>v. upd = [(''pr_info'', v)]"
proof -
  from assms have "gather_pr_info E st w = (Inr upd, snd (gather_pr_info E st w))"
    by (metis prod.collapse)
  from gather_pr_info_Inr [OF this] show ?thesis by blast
qed

lemma merged_one_key:
  assumes "apply_update r st [(k, v)] = Inr st'" and "key \<noteq> k"
  shows "map_of st' key = map_of st key"
  using assms by (auto simp: apply_update_def update_conv' split: if_splits)

lemma one_field_of_update:
  assumes "upd = [(k, v)]" and "apply_update r st upd = Inr st'"
  shows "length upd = 1 \<and> (\<forall>key. key \<noteq> k \<longrightarrow> map_of st' key = map_of st key)"
proof -
  from assms have "apply_update r st [(k, v)] = Inr st'" by simp
  from merged_one_key [OF this] assms(1) show ?thesis by simp
qed

text \<open>
  C10. Each of the five nodes returns an update of exactly one key, and once the runner
  has merged it every field of the state other than the stage's output field is as
  before: Gather leaves \<open>pr_url\<close> as it is, and an analysis stage leaves \<open>pr_info\<close> and
  the reports of the earlier stages as they are.
\<close>

theorem stage_changes_one_field:
  assumes "(node, out) \<in> set [(''gather_pr_info'', ''pr_info''),
                               (''contextualize_info'', ''context''),
                               (''extract_features'', ''features''),
                               (''create_expert_checklist'', ''team_review''),
                               (''final_review'', ''final_report'')]"
      and "map_of (nodes E) node = Some stage"
      and "fst (stage st w) = Inr upd"
      and "apply_update (refuses_foreign_update E) st upd = Inr st'"
  shows "length upd = 1 \<and> (\<forall>key. key \<noteq> out \<longrightarrow> map_of st' key = map_of st key)"
proof -
  have c1: ?thesis if "node = ''gather_pr_info''" and "out = ''pr_info''"
  proof -
    from assms(2) that have "stage = gather_pr_info E" by (simp add: nodes_def)
    with assms(3) gather_pr_info_shape obtain v where "upd = [(''pr_info'', v)]" by metis
    from one_field_of_update [OF this assms(4)] that show ?thesis by simp
  qed
  have c2: ?thesis if "node = ''contextualize_info''" and "out = ''context''"
  proof -
    from assms(2) that have "stage = contextualize_info E" by (simp add: nodes_def)
    with assms(3) contextualize_info_shape obtain v where "upd = [(''context'', v)]" by metis
    from one_field_of_update [OF this assms(4)] that show ?thesis by simp
  qed
  have c3: ?thesis if "node = ''extract_features''" and "out = ''features''"
  proof -
    from assms(2) that have "stage = extract_features E" by (simp add: nodes_def)
    with assms(3) extract_features_shape obtain v where "upd = [(''features'', v)]" by metis
    from one_field_of_update [OF this assms(4)] that show ?thesis by simp
  qed
  have c4: ?thesis if "node = ''create_expert_checklist''" and "out = ''team_review''"
  proof -
    from assms(2) that have "stage = create_expert_checklist E" by (simp add: nodes_def)
    with assms(3) create_expert_checklist_shape obtain v where "upd = [(''team_review'', v)]"
      by metis
    from one_field_of_update [OF this assms(4)] that show ?thesis by simp
  qed
  have c5: ?thesis if "node = ''final_review''" and "out = ''final_report''"
  proof -
    from assms(2) that have "stage = final_review E" by (simp add: nodes_def)
    with assms(3) have u: "upd = [(''final report'', PStr (reply_of E (final_review_request E st)))]"
      by (simp add: final_review_fst)
    with assms(4) have "st' = st"
      by (simp add: apply_update_foreign schema_keys_def split: if_splits)
    with u show ?thesis by simp
  qed
  from assms(1) have
    "(node = ''gather_pr_info'' \<and> out = ''pr_info'')
     \<or> (node = ''contextualize_info'' \<and> out = ''context'')
     \<or> (node = ''extract_features'' \<and> out = ''features'')
     \<or> (node = ''create_expert_checklist'' \<and> out = ''team_review'')
     \<or> (node = ''final_review'' \<and> out = ''final_report'')"
    by (simp only: list.set insert_iff empty_iff prod.inject simp_thms)
  then show ?thesis
    by (elim disjE conjE) (rule c1 c2 c3 c4 c5; assumption)+
qed

theorem stage_changes_one_field_witness:
  "fst (gather_pr_info (sample_env failing_client False)
          (initial_state ''https://github.com/owner/repo/pull/42'') world0)
     = Inr [(''pr_info'', sample_pr_info)]
   \<and> apply_update (refuses_foreign_update (sample_env failing_client False))
         (initial_state ''https://github.com/owner/repo/pull/42'')
         [(''pr_info'', sample_pr_info)]
     = Inr (AList.update ''pr_info'' sample_pr_info
              (initial_state ''https://github.com/owner/repo/pull/42''))
   \<and> map_of (AList.update ''pr_info'' sample_pr_info
                (initial_state ''https://github.com/owner/repo/pull/42'')) ''pr_url''
     = Some (PStr ''https://github.com/owner/repo/pull/42'')"
proof -
  let ?E = "sample_env failing_client False"
  let ?st = "initial_state ''https://github.com/owner/repo/pull/42''"
  have h1: "(''gather_pr_info'', ''pr_info'') \<in> set [(''gather_pr_info'', ''pr_info''),
                               (''contextualize_info'', ''context''),
                               (''extract_features'', ''features''),
                               (''create_expert_checklist'', ''team_review''),
                               (''final_review'', ''final_report'')]"
    by simp
  have h2: "map_of (nodes ?E) ''gather_pr_info'' = Some (gather_pr_info ?E)"
    by (simp add: nodes_def)
  have h3: "fst (gather_pr_info ?E ?st world0) = Inr [(''pr_info'', sample_pr_info)]"
    by (simp add: sample_gather_run [OF sample_initial_url])
  have h4: "apply_update (refuses_foreign_update ?E) ?st [(''pr_info'', sample_pr_info)]
              = Inr (AList.update ''pr_info'' sample_pr_info ?st)"
    by (simp add: apply_update_schema schema_keys_def)
  have k: "''pr_url'' \<noteq> ''pr_info''" by simp
  from stage_changes_one_field [OF h1 h2 h3 h4] k
  have "map_of (AList.update ''pr_info'' sample_pr_info ?st) ''pr_url'' = map_of ?st ''pr_url''"
    by (simp only: simp_thms)
  with h3 h4 show ?thesis
    by (simp only: sample_initial_url simp_thms)
qed

lemma sample_invoke:
  fixes c :: "chat_request \<Rightarrow> exn + chat_response" and s :: bool and w :: world
  defines "E \<equiv> sample_env c s"
  defines "r1 \<equiv> PStr (reply_of E (contextualize_request E sample_pr_info))"
  defines "r2 \<equiv> PStr (reply_of E (extract_features_request E sample_pr_info r1))"
  defines "r3 \<equiv> PStr (reply_of E (create_expert_checklist_request E sample_pr_info r1 r2))"
  shows "\<exists>w'. invoke E (initial_state ''https://github.com/owner/repo/pull/42'') w =
           ((if s then Inl InvalidUpdateError
             else Inr [(''pr_url'', PStr ''https://github.com/owner/repo/pull/42''),
                  (''pr_info'', sample_pr_info), (''context'', r1), (''features'', r2),
                  (''team_review'', r3), (''final_report'', PStr '''')]), w')
         \<and> file_writes w' = file_writes w"
proof -
  have g: "fst (gather_pr_info E
          (filter (\<lambda>kv. fst kv \<in> set schema_keys)
             (initial_state ''https://github.com/owner/repo/pull/42'')) w)
     = Inr [(''pr_info'', sample_pr_info)]"
    by (simp add: E_def initial_state_filter sample_gather_run [OF sample_initial_url])
  have s: "refuses_foreign_update E = s"
    by (simp add: E_def sample_env_def)
  from invoke_summary [OF g] show ?thesis
    unfolding initial_state_filter s r1_def r2_def r3_def
    by (auto simp: initial_state_def)
qed

lemma failing_reply: "reply_of (sample_env failing_client s) r = placeholder"
  by (rule reply_of_failure [where e = "External ''RateLimitError''"])
     (simp add: sample_env_def failing_client_def)

lemma replying_reply: "reply_of (sample_env replying_client s) r = ''Looks good.''"
  by (simp add: reply_of_def attempt_reply_def bind_def py_index_def sample_env_def
        replying_client_def strip_def space1_def space2_def space3_def)

lemma roles_differ: "reviewer_role \<noteq> final_role" "checklist_role \<noteq> final_role"
  by (simp_all add: reviewer_role_def checklist_role_def final_role_def)

lemma final_failing_reply:
  "reply_of (sample_env final_failing_client s) (chat role prompt t)
     = (if role = final_role then placeholder else ''Looks good.'')"
  by (simp add: reply_of_def attempt_reply_def bind_def py_index_def sample_env_def
        final_failing_client_def replying_client_def strip_def space1_def space2_def space3_def chat_def)

text \<open>
  C1. The run of the sample in which every text-generation call fails. The three earlier
  reports are the placeholder, but \<open>final_report\<close> is still the empty string of the
  initial state: \<open>final_review\<close> returns its reply under the key \<open>final report\<close>, which
  is no key of the state. Both artifacts are written, \<open>final_report.md\<close> empty, by a
  library that drops the foreign key; a library that refuses it ends the run with
  InvalidUpdateError and nothing is written.
\<close>

theorem all_generation_fails_run:
  "fst (invoke (sample_env failing_client False)
          (initial_state ''https://github.com/owner/repo/pull/42'') world0)
     = Inr [(''pr_url'', PStr ''https://github.com/owner/repo/pull/42''),
            (''pr_info'', sample_pr_info),
            (''context'', PStr ''Error generating context.''),
            (''features'', PStr ''Error generating context.''),
            (''team_review'', PStr ''Error generating context.''),
            (''final_report'', PStr [])]
   \<and> run_script (sample_env failing_client False)
         ''https://github.com/owner/repo/pull/42'' world0
       = (Inr (), snd (run_script (sample_env failing_client False)
                         ''https://github.com/owner/repo/pull/42'' world0))
   \<and> file_writes (snd (run_script (sample_env failing_client False)
                         ''https://github.com/owner/repo/pull/42'' world0))
       = [(''result.json'', ''{}''), (''final_report.md'', [])]
   \<and> fst (run_script (sample_env failing_client True)
            ''https://github.com/owner/repo/pull/42'' world0) = Inl InvalidUpdateError
   \<and> file_writes (snd (run_script (sample_env failing_client True)
                         ''https://github.com/owner/repo/pull/42'' world0)) = []"
proof -
  let ?S = "[(''pr_url'', PStr ''https://github.com/owner/repo/pull/42''),
            (''pr_info'', sample_pr_info),
            (''context'', PStr ''Error generating context.''),
            (''features'', PStr ''Error generating context.''),
            (''team_review'', PStr ''Error generating context.''),
            (''final_report'', PStr [])]"
  from sample_invoke [of failing_client False world0] obtain w1 where
    i1: "invoke (sample_env failing_client False)
           (initial_state ''https://github.com/owner/repo/pull/42'') world0 = (Inr ?S, w1)" and
    f1: "file_writes w1 = []"
    by (auto simp: failing_reply placeholder_def world0_def)
  from sample_invoke [of failing_client True world0] obtain w2 where
    i2: "invoke (sample_env failing_client True)
           (initial_state ''https://github.com/owner/repo/pull/42'') world0
           = (Inl InvalidUpdateError, w2)" and
    f2: "file_writes w2 = []"
    by (auto simp: world0_def)
  have j: "json_dumps (sample_env failing_client False) None v = ''{}''" for v
    by (simp add: sample_env_def)
  have r1: "run_script (sample_env failing_client False)
              ''https://github.com/owner/repo/pull/42'' world0
            = (Inr (), w1\<lparr>file_writes := [(''result.json'', ''{}''), (''final_report.md'', [])]\<rparr>)"
    by (simp add: run_script_def ebind_def i1 write_file_def pure_def py_getitem_def f1 j)
  have r2: "run_script (sample_env failing_client True)
              ''https://github.com/owner/repo/pull/42'' world0 = (Inl InvalidUpdateError, w2)"
    by (simp add: run_script_def ebind_def i2)
  show ?thesis
    by (simp add: i1 r1 r2 f2)
qed

text \<open>
  C5. The run of the sample in which the client answers the three earlier stages and
  fails on the final review. The final stage does take the placeholder as its reply and
  returns it without raising, but under the key \<open>final report\<close>: the \<open>final_report\<close>
  field of the final state is not the placeholder.
\<close>

theorem final_stage_failure_run:
  "fst (invoke (sample_env final_failing_client False)
          (initial_state ''https://github.com/owner/repo/pull/42'') world0)
     = Inr [(''pr_url'', PStr ''https://github.com/owner/repo/pull/42''),
            (''pr_info'', sample_pr_info),
            (''context'', PStr ''Looks good.''),
            (''features'', PStr ''Looks good.''),
            (''team_review'', PStr ''Looks good.''),
            (''final_report'', PStr [])]
   \<and> fst (final_review (sample_env final_failing_client False)
            [(''pr_url'', PStr ''https://github.com/owner/repo/pull/42''),
             (''pr_info'', sample_pr_info),
             (''context'', PStr ''Looks good.''),
             (''features'', PStr ''Looks good.''),
             (''team_review'', PStr ''Looks good.''),
             (''final_report'', PStr [])] world0)
     = Inr [(''final report'', PStr ''Error generating context.'')]"
proof -
  have a: "fst (invoke (sample_env final_failing_client False)
          (initial_state ''https://github.com/owner/repo/pull/42'') world0)
     = Inr [(''pr_url'', PStr ''https://github.com/owner/repo/pull/42''),
            (''pr_info'', sample_pr_info),
            (''context'', PStr ''Looks good.''),
            (''features'', PStr ''Looks good.''),
            (''team_review'', PStr ''Looks good.''),
            (''final_report'', PStr [])]"
    using sample_invoke [of final_failing_client False world0]
    by (auto simp: contextualize_request_def extract_features_request_def
          create_expert_checklist_request_def final_failing_reply roles_differ)
  have b: "fst (final_review (sample_env final_failing_client False)
            [(''pr_url'', PStr ''https://github.com/owner/repo/pull/42''),
             (''pr_info'', sample_pr_info),
             (''context'', PStr ''Looks good.''),
             (''features'', PStr ''Looks good.''),
             (''team_review'', PStr ''Looks good.''),
             (''final_report'', PStr [])] world0)
     = Inr [(''final report'', PStr ''Error generating context.'')]"
    by (simp add: final_review_fst final_review_request_def final_failing_reply placeholder_def)
  from a b show ?thesis by (rule conjI)
qed

text \<open>
  C9. The run of the sample in which every call answers \<open>Looks good.\<close> with white space
  around it. The three earlier report fields hold the trimmed text; \<open>final_report\<close> does
  not: the trimmed reply of the final review went under the key \<open>final report\<close>.
\<close>

theorem all_generation_succeeds_run:
  "fst (invoke (sample_env replying_client False)
          (initial_state ''https://github.com/owner/repo/pull/42'') world0)
     = Inr [(''pr_url'', PStr ''https://github.com/owner/repo/pull/42''),
            (''pr_info'', sample_pr_info),
            (''context'', PStr ''Looks good.''),
            (''features'', PStr ''Looks good.''),
            (''team_review'', PStr ''Looks good.''),
            (''final_report'', PStr [])]
   \<and> strip ''  Looks good.\<newline>'' = ''Looks good.''"
proof -
  have "strip ''  Looks good.\<newline>'' = ''Looks good.''"
    by (simp add: strip_def space1_def space2_def space3_def)
  with sample_invoke [of replying_client False world0] show ?thesis
    by (auto simp: replying_reply)
qed



















end
